theory Spec2Isabelle
  imports
    Complex_Main
    "HOL-Library.Multiset"
    "HOL-Library.Char_ord"
    "HOL-Library.List_Lexorder"
    "HOL-Library.Product_Lexorder"
begin

section \<open>Values and frames\<close>

text \<open>
  A calendar date is (year, month, day); a timestamp is a date with the nanoseconds into
  the day. Both are ordered lexicographically, which is chronological order.
\<close>

type_synonym date = "nat \<times> nat \<times> nat"
type_synonym timestamp = "date \<times> nat"

text \<open>
  One cell of a pandas frame. \<open>NaN\<close> stands for every null (NaN, None, NaT): an empty
  field of the uploaded file. \<open>Str\<close> is the text of a field, \<open>Num\<close> a converted number
  and \<open>Ts\<close> a converted timestamp. A number is an int64 or a float64; either is a
  rational, and \<open>Num\<close> carries that rational.
\<close>

datatype cell = NaN | Str string | Num rat | Ts timestamp

record dataframe =
  columns :: "string list"
  rows :: "cell list list"

definition cell_at :: "cell list \<Rightarrow> nat \<Rightarrow> cell" where
  "cell_at r i = (if i < length r then r ! i else NaN)"

definition set_cell :: "cell list \<Rightarrow> nat \<Rightarrow> cell \<Rightarrow> cell list" where
  "set_cell r i v = (r @ replicate (Suc i - length r) NaN)[i := v]"

definition positions :: "string \<Rightarrow> string list \<Rightarrow> nat list" where
  "positions c cs = [i \<leftarrow> [0..<length cs]. cs ! i = c]"

text \<open>
  \<open>df[c]\<close> as a Series. It is one only when the label \<open>c\<close> occurs exactly once: an
  absent label raises KeyError, and a repeated label yields a frame, on which the calls
  of this program do not compute what they compute on a Series. Both are \<open>None\<close>.
\<close>

definition getitem :: "dataframe \<Rightarrow> string \<Rightarrow> cell list option" where
  "getitem df c =
     (case positions c (columns df) of
        [i] \<Rightarrow> Some (map (\<lambda>r. cell_at r i) (rows df))
      | _ \<Rightarrow> None)"

text \<open>\<open>df[c] = vs\<close> for a label that occurs once.\<close>

definition setitem :: "dataframe \<Rightarrow> string \<Rightarrow> cell list \<Rightarrow> dataframe" where
  "setitem df c vs =
     (case positions c (columns df) of
        [i] \<Rightarrow> df\<lparr>rows := map (\<lambda>(r, v). set_cell r i v) (zip (rows df) vs)\<rparr>
      | _ \<Rightarrow> df)"

text \<open>\<open>df.empty\<close>: some axis has length 0.\<close>

definition empty_df :: "dataframe \<Rightarrow> bool" where
  "empty_df df = (rows df = [] \<or> columns df = [])"

section \<open>String methods\<close>

text \<open>
  Column labels are taken to be ASCII: \<open>str.strip\<close> removes the ASCII whitespace
  characters and \<open>str.lower\<close> maps A-Z to a-z.
\<close>

definition isspace :: "char \<Rightarrow> bool" where
  "isspace c = (c \<in> set [CHR 0x09, CHR 0x0A, CHR 0x0B, CHR 0x0C, CHR 0x0D,
                         CHR 0x1C, CHR 0x1D, CHR 0x1E, CHR 0x1F, CHR 0x20])"

definition strip :: "string \<Rightarrow> string" where
  "strip s = rev (dropWhile isspace (rev (dropWhile isspace s)))"

definition lower_char :: "char \<Rightarrow> char" where
  "lower_char c =
     (let n = (of_char c :: nat) in if 65 \<le> n \<and> n \<le> 90 then char_of (n + 32) else c)"

definition lower :: "string \<Rightarrow> string" where
  "lower s = map lower_char s"

text \<open>\<open>s.replace(a, b)\<close> for one-character \<open>a\<close> and \<open>b\<close>.\<close>

definition replace :: "char \<Rightarrow> char \<Rightarrow> string \<Rightarrow> string" where
  "replace a b s = map (\<lambda>c. if c = a then b else c) s"

fun join :: "string \<Rightarrow> string list \<Rightarrow> string" where
  "join sep [] = []"
| "join sep [x] = x"
| "join sep (x # y # ys) = x @ sep @ join sep (y # ys)"

section \<open>The pandas converters\<close>

text \<open>
  What \<open>pd.to_datetime\<close> and \<open>pd.to_numeric\<close> make of one non-null cell is a parameter
  of the model: \<open>Inl\<close> carries the text of the exception pandas raises. The two remaining
  fields are the texts of the exceptions raised when the argument is a frame (a repeated
  label) instead of a Series.

  How a column of numbers is added up is a parameter as well: the sum of an int64 column
  is exact, every addition of float64 values rounds, and the order of the additions is
  pandas' own. \<open>group_sum\<close> is the sum \<open>groupby(...).sum()\<close> computes for the values of
  one group, \<open>series_sum\<close> is \<open>Series.sum()\<close>.
\<close>

record pandas =
  to_datetime_el :: "cell \<Rightarrow> string + timestamp"
  to_numeric_el :: "cell \<Rightarrow> string + rat"
  to_datetime_frame :: string
  to_numeric_frame :: string
  group_sum :: "rat list \<Rightarrow> rat"
  series_sum :: "rat list \<Rightarrow> rat"

fun to_datetime :: "pandas \<Rightarrow> cell list \<Rightarrow> string + cell list" where
  "to_datetime P [] = Inr []"
| "to_datetime P (c # cs) =
     (case (if c = NaN then Inr NaN else map_sum id Ts (to_datetime_el P c)) of
        Inl e \<Rightarrow> Inl e
      | Inr d \<Rightarrow> (case to_datetime P cs of Inl e \<Rightarrow> Inl e | Inr ds \<Rightarrow> Inr (d # ds)))"

fun to_numeric :: "pandas \<Rightarrow> cell list \<Rightarrow> string + cell list" where
  "to_numeric P [] = Inr []"
| "to_numeric P (c # cs) =
     (case (if c = NaN then Inr NaN else map_sum id Num (to_numeric_el P c)) of
        Inl e \<Rightarrow> Inl e
      | Inr n \<Rightarrow> (case to_numeric P cs of Inl e \<Rightarrow> Inl e | Inr ns \<Rightarrow> Inr (n # ns)))"

definition fillna :: "cell \<Rightarrow> cell list \<Rightarrow> cell list" where
  "fillna v cs = map (\<lambda>c. if c = NaN then v else c) cs"

section \<open>clean_data\<close>

definition normalize_column :: "string \<Rightarrow> string" where
  "normalize_column col = replace (CHR '' '') (CHR ''_'') (lower (strip col))"

definition required_columns :: "string list" where
  "required_columns =
     [''date'', ''platform'', ''sentiment'', ''location'', ''engagements'', ''media_type'']"

definition missing_columns :: "dataframe \<Rightarrow> string list" where
  "missing_columns df = [col \<leftarrow> required_columns. col \<notin> set (columns df)]"

text \<open>The body of the \<open>try\<close> block: \<open>Inl\<close> is the text of the exception caught.\<close>

definition convert_types :: "pandas \<Rightarrow> dataframe \<Rightarrow> string + dataframe" where
  "convert_types P df =
     (case getitem df ''date'' of
        None \<Rightarrow> Inl (to_datetime_frame P)
      | Some ds \<Rightarrow>
          (case to_datetime P ds of
             Inl e \<Rightarrow> Inl e
           | Inr ds' \<Rightarrow>
               (let df1 = setitem df ''date'' ds' in
                case getitem df1 ''engagements'' of
                  None \<Rightarrow> Inl (to_numeric_frame P)
                | Some es \<Rightarrow>
                    (case to_numeric P es of
                       Inl e \<Rightarrow> Inl e
                     | Inr es' \<Rightarrow> Inr (setitem df1 ''engagements'' (fillna (Num 0) es'))))))"

text \<open>
  \<open>clean_data\<close> returns the cleaned frame (\<open>Inr\<close>), or shows an error and returns
  \<open>None\<close>: \<open>Inl\<close> carries the text given to \<open>st.error\<close>.
\<close>

definition clean_data :: "pandas \<Rightarrow> dataframe \<Rightarrow> string + dataframe" where
  "clean_data P df0 =
     (let df = df0\<lparr>columns := map normalize_column (columns df0)\<rparr> in
      if missing_columns df \<noteq> [] then
        Inl (''Error: The following required columns are missing from your CSV file: ''
             @ join '', '' (missing_columns df))
      else
        (case convert_types P df of
           Inl e \<Rightarrow>
             Inl (''Error processing data: '' @ e
                  @ ''. Please check the format of your 'Date' and 'Engagements' columns.'')
         | Inr df' \<Rightarrow> Inr df'))"

section \<open>Series operations\<close>

text \<open>
  A Series with an index: the labels with their values, in order. Group labels are
  sorted by \<open>cell_key\<close>: timestamps chronologically, texts as Python orders \<open>str\<close>.
\<close>

type_synonym 'v series = "(cell \<times> 'v) list"

definition cell_key :: "cell \<Rightarrow> nat \<times> rat \<times> string \<times> timestamp" where
  "cell_key c =
     (case c of
        NaN \<Rightarrow> (0, 0, [], ((0, 0, 0), 0))
      | Num n \<Rightarrow> (1, n, [], ((0, 0, 0), 0))
      | Str s \<Rightarrow> (2, 0, s, ((0, 0, 0), 0))
      | Ts t \<Rightarrow> (3, 0, [], t))"

definition num_of :: "cell \<Rightarrow> rat" where
  "num_of c = (case c of Num n \<Rightarrow> n | _ \<Rightarrow> 0)"

text \<open>Unique values in order of first appearance.\<close>

definition unique :: "cell list \<Rightarrow> cell list" where
  "unique cs = rev (remdups (rev cs))"

text \<open>
  \<open>sort_values(ascending=False)\<close>, as pandas computes it: reverse, sort ascending,
  reverse. The sort is taken to be stable, so ties keep their order.
\<close>

definition sort_values_desc :: "('v::linorder) series \<Rightarrow> 'v series" where
  "sort_values_desc s = rev (sort_key snd (rev s))"

text \<open>\<open>value_counts()\<close>: nulls are dropped, the counts are sorted descending.\<close>

definition value_counts :: "cell list \<Rightarrow> int series" where
  "value_counts cs =
     sort_values_desc (map (\<lambda>k. (k, int (count_list cs k))) (unique [c \<leftarrow> cs. c \<noteq> NaN]))"

text \<open>
  \<open>df.groupby(key)[val].sum()\<close> on the two columns: rows with a null key are dropped,
  the groups are sorted by key.
\<close>

definition group_keys :: "cell list \<Rightarrow> cell list" where
  "group_keys ks = sort_key cell_key (remdups [k \<leftarrow> ks. k \<noteq> NaN])"

definition group_values :: "cell list \<Rightarrow> cell list \<Rightarrow> cell \<Rightarrow> rat list" where
  "group_values ks vs k = map (\<lambda>kv. num_of (snd kv)) [kv \<leftarrow> zip ks vs. fst kv = k]"

definition groupby_sum :: "pandas \<Rightarrow> cell list \<Rightarrow> cell list \<Rightarrow> rat series" where
  "groupby_sum P ks vs = map (\<lambda>k. (k, group_sum P (group_values ks vs k))) (group_keys ks)"

definition head :: "nat \<Rightarrow> 'v series \<Rightarrow> 'v series" where
  "head n s = take n s"

text \<open>\<open>nlargest(n)\<close> with \<open>keep='first'\<close>.\<close>

definition nlargest :: "nat \<Rightarrow> ('v::linorder) series \<Rightarrow> 'v series" where
  "nlargest n s = take n (sort_values_desc s)"

text \<open>\<open>idxmax()\<close>: the label of the first maximum. The callers pass a non-empty Series.\<close>

definition idxmax :: "('v::linorder) series \<Rightarrow> cell" where
  "idxmax s = fst (fold (\<lambda>kv best. if snd best < snd kv then kv else best) (tl s) (hd s))"

section \<open>Formatting\<close>

definition digit_char :: "nat \<Rightarrow> char" where
  "digit_char n = char_of (48 + n)"

fun show_nat :: "nat \<Rightarrow> string" where
  "show_nat n = (if n < 10 then [digit_char n] else show_nat (n div 10) @ [digit_char (n mod 10)])"

declare show_nat.simps [simp del]

definition show_int :: "int \<Rightarrow> string" where
  "show_int i = (if i < 0 then ''-'' @ show_nat (nat (- i)) else show_nat (nat i))"

definition pad :: "nat \<Rightarrow> string \<Rightarrow> string" where
  "pad w s = replicate (w - length s) (CHR ''0'') @ s"

text \<open>Digits of \<open>n\<close> with thousands separators.\<close>

fun show_commas :: "nat \<Rightarrow> string" where
  "show_commas n =
     (if n < 1000 then show_nat n
      else show_commas (n div 1000) @ '','' @ pad 3 (show_nat (n mod 1000)))"

declare show_commas.simps [simp del]

text \<open>The integer nearest to \<open>n / d\<close> for \<open>0 < d\<close>, ties to the even one.\<close>

definition round_half_even :: "nat \<Rightarrow> nat \<Rightarrow> nat" where
  "round_half_even n d =
     (let q = n div d; r = n mod d in
      if 2 * r < d then q else if d < 2 * r then Suc q else if even q then q else Suc q)"

text \<open>
  \<open>f"{x:.1f}"\<close> and \<open>f"{x:,.0f}"\<close> for the quotient \<open>x = n / d\<close> of two integers, as numpy
  divides them: a zero divisor gives nan or an infinity. The quotient is exact here;
  Python formats the nearest double. The last two functions format the quotient of two
  numbers the same way.
\<close>

definition non_finite :: "int \<Rightarrow> string" where
  "non_finite n = (if n = 0 then ''nan'' else if 0 < n then ''inf'' else ''-inf'')"

definition sign_text :: "int \<Rightarrow> int \<Rightarrow> string" where
  "sign_text n d = (if (n < 0) \<noteq> (d < 0) then ''-'' else [])"

definition fmt_1f :: "int \<Rightarrow> int \<Rightarrow> string" where
  "fmt_1f n d =
     (if d = 0 then non_finite n
      else
        (let t = round_half_even (10 * nat \<bar>n\<bar>) (nat \<bar>d\<bar>) in
         sign_text n d @ show_nat (t div 10) @ ''.'' @ show_nat (t mod 10)))"

definition fmt_comma_0f :: "int \<Rightarrow> int \<Rightarrow> string" where
  "fmt_comma_0f n d =
     (if d = 0 then non_finite n
      else sign_text n d @ show_commas (round_half_even (nat \<bar>n\<bar>) (nat \<bar>d\<bar>)))"

definition fmt_1f_percent :: "rat \<Rightarrow> rat \<Rightarrow> string" where
  "fmt_1f_percent a b =
     (if b = 0 then non_finite (fst (quotient_of a))
      else (case quotient_of (a / b * 100) of (n, d) \<Rightarrow> fmt_1f n d))"

definition fmt_comma_0f_mean :: "rat \<Rightarrow> nat \<Rightarrow> string" where
  "fmt_comma_0f_mean s k =
     (if k = 0 then non_finite (fst (quotient_of s))
      else (case quotient_of (s / of_nat k) of (n, d) \<Rightarrow> fmt_comma_0f n d))"

definition month_name :: "nat \<Rightarrow> string" where
  "month_name m =
     (let names = [''January'', ''February'', ''March'', ''April'', ''May'', ''June'', ''July'',
                   ''August'', ''September'', ''October'', ''November'', ''December'']
      in if 1 \<le> m \<and> m \<le> 12 then names ! (m - 1) else [])"

text \<open>
  \<open>x.strftime('%B %d, %Y')\<close>: defined on timestamps; on anything else the attribute
  lookup raises.
\<close>

definition strftime_B_d_Y :: "cell \<Rightarrow> string option" where
  "strftime_B_d_Y c =
     (case c of
        Ts ((y, m, d), ns) \<Rightarrow> Some (month_name m @ '' '' @ pad 2 (show_nat d) @ '', '' @ show_nat y)
      | _ \<Rightarrow> None)"

text \<open>
  \<open>f"{x}"\<close> for an index label. The labels of the category columns are texts; the other
  cases are given for completeness (only the engagements column holds numbers, and it
  is never an index).
\<close>

definition cell_text :: "cell \<Rightarrow> string" where
  "cell_text c =
     (case c of
        Str s \<Rightarrow> s
      | Num x \<Rightarrow>
          (case quotient_of x of
             (n, d) \<Rightarrow> if d = 1 then show_int n else show_int n @ ''/'' @ show_int d)
      | NaN \<Rightarrow> ''nan''
      | Ts ((y, m, d), ns) \<Rightarrow>
          pad 4 (show_nat y) @ ''-'' @ pad 2 (show_nat m) @ ''-'' @ pad 2 (show_nat d) @ '' ''
          @ pad 2 (show_nat (ns div 3600000000000)) @ '':''
          @ pad 2 (show_nat (ns div 60000000000 mod 60)) @ '':''
          @ pad 2 (show_nat (ns div 1000000000 mod 60))
          @ (if ns mod 1000000000 = 0 then []
             else if ns mod 1000 = 0 then ''.'' @ pad 6 (show_nat (ns div 1000 mod 1000000))
             else ''.'' @ pad 9 (show_nat (ns mod 1000000000))))"

section \<open>Insight generation\<close>

text \<open>
  Each function returns the list of insight strings; \<open>None\<close> is an exception that
  nothing catches. The engagements column of a cleaned frame holds numbers, which is
  what the sums read; the functions that sum take the arithmetic of pandas as \<open>P\<close>.
\<close>

definition get_sentiment_insights :: "dataframe \<Rightarrow> string list option" where
  "get_sentiment_insights df =
     (if empty_df df then Some []
      else
        (case getitem df ''sentiment'' of
           None \<Rightarrow> None
         | Some col \<Rightarrow>
             (let sentiment_counts = value_counts col;
                  sorted_sentiments = sort_values_desc sentiment_counts;
                  total_posts = int (length (rows df))
              in Some
                ((if sorted_sentiments \<noteq> [] then
                    [''**Dominant Sentiment:** The audience reception is largely **''
                     @ cell_text (fst (hd sorted_sentiments))
                     @ ''**, accounting for ''
                     @ fmt_1f (snd (hd sorted_sentiments) * 100) total_posts
                     @ ''% of all posts.'']
                  else [])
                 @ (if 2 < length sorted_sentiments then
                      [''**Data Anomaly:** The **''
                       @ cell_text (fst (last sorted_sentiments))
                       @ ''** sentiment is a significant minority, suggesting a need to investigate specific posts driving this feeling.'']
                    else [])
                 @ [''**Strategic Trend:** The current sentiment mix indicates the overall tone of the content. Efforts should focus on increasing positive interactions.'']))))"

definition get_engagement_trend_insights :: "pandas \<Rightarrow> dataframe \<Rightarrow> string list option" where
  "get_engagement_trend_insights P df =
     (if empty_df df \<or> length (rows df) < 2 then Some []
      else
        (case (getitem df ''date'', getitem df ''engagements'') of
           (Some ds, Some es) \<Rightarrow>
             (let engagement_by_date = groupby_sum P ds es in
              if engagement_by_date = [] then Some []
              else
                (case strftime_B_d_Y (idxmax engagement_by_date) of
                   None \<Rightarrow> None
                 | Some peak_date \<Rightarrow>
                     Some
                       [''**Peak Engagement:** The highest engagement was on **'' @ peak_date
                        @ ''**, suggesting a highly successful post or event that should be analyzed.'',
                        ''**Emerging Trend:** The engagement trend shows a general **''
                        @ (if snd (hd engagement_by_date) < snd (last engagement_by_date)
                           then ''upward'' else ''stable or declining'')
                        @ ''** trajectory.'',
                        ''**Performance Context:** The average engagement per day is **''
                        @ fmt_comma_0f_mean (series_sum P (map snd engagement_by_date))
                            (length engagement_by_date)
                        @ ''**, serving as a baseline for future content.'']))
         | _ \<Rightarrow> None))"

definition get_platform_insights :: "pandas \<Rightarrow> dataframe \<Rightarrow> string list option" where
  "get_platform_insights P df =
     (if empty_df df then Some []
      else
        (case (getitem df ''platform'', getitem df ''engagements'') of
           (Some ps, Some es) \<Rightarrow>
             (let platform_engagements = sort_values_desc (groupby_sum P ps es);
                  total_engagements = series_sum P (map snd platform_engagements)
              in Some
                ((if platform_engagements \<noteq> [] then
                    [''**Key Finding:** **'' @ cell_text (fst (hd platform_engagements))
                     @ ''** is the primary engagement driver, accounting for **''
                     @ fmt_1f_percent (snd (hd platform_engagements)) total_engagements
                     @ ''%** of the total.'']
                  else [])
                 @ (if 1 < length platform_engagements then
                      [''**Performance Gap:** There is a clear performance difference between platforms, highlighting where resources are most effective.'']
                    else [])
                 @ [''**Strategic Implication:** Content and ad spend should be prioritized towards the most engaging platforms.'']))
         | _ \<Rightarrow> None))"

definition get_media_type_insights :: "dataframe \<Rightarrow> string list option" where
  "get_media_type_insights df =
     (if empty_df df then Some []
      else
        (case getitem df ''media_type'' of
           None \<Rightarrow> None
         | Some col \<Rightarrow>
             (let media_type_counts = sort_values_desc (value_counts col)
              in Some
                ((if media_type_counts \<noteq> [] then
                    [''**Dominant Format:** The content strategy is heavily reliant on **''
                     @ cell_text (fst (hd media_type_counts)) @ ''**.'']
                  else [])
                 @ (if 1 < length media_type_counts then
                      [''**Untapped Potential:** The least used format, **''
                       @ cell_text (fst (last media_type_counts))
                       @ ''**, could be an area for growth and audience diversification.'']
                    else [])
                 @ [''**Content Mix:** The visual balance suggests the diversity of the content portfolio. A balanced mix is key to reaching different audience segments.'']))))"

definition get_location_insights :: "pandas \<Rightarrow> dataframe \<Rightarrow> string list option" where
  "get_location_insights P df =
     (if empty_df df \<or> ''location'' \<notin> set (columns df) then Some []
      else
        (case getitem df ''location'' of
           None \<Rightarrow> None
         | Some ls \<Rightarrow>
             if list_all (\<lambda>c. c = NaN) ls then Some []
             else
               (case getitem df ''engagements'' of
                  None \<Rightarrow> None
                | Some es \<Rightarrow>
                    (let location_engagements = head 5 (sort_values_desc (groupby_sum P ls es))
                     in Some
                       ((if location_engagements \<noteq> [] then
                           [''**Primary Market:** Engagement is heavily concentrated in **''
                            @ cell_text (fst (hd location_engagements)) @ ''**.'']
                         else [])
                        @ (if 1 < length location_engagements then
                             [''**Audience Concentration:** A noticeable drop-off in engagement after the top location indicates a hyper-concentrated audience.'']
                           else [])
                        @ [''**Geo-Targeting Opportunity:** The top locations are clear candidates for geo-targeted campaigns and localized content.''])))))"

section \<open>Filtering\<close>

text \<open>What the sidebar widgets returned.\<close>

record selection =
  start_date :: date
  end_date :: date
  selected_platform :: cell
  selected_sentiment :: cell
  selected_media_type :: cell

text \<open>
  \<open>series.dt.date\<close>: the calendar date of each timestamp, NaT for a null. The accessor
  exists on a datetime column only.
\<close>

definition datetimelike :: "cell \<Rightarrow> bool" where
  "datetimelike c = (case c of NaN \<Rightarrow> True | Ts t \<Rightarrow> True | _ \<Rightarrow> False)"

definition dt_date :: "cell list \<Rightarrow> date option list option" where
  "dt_date cs =
     (if list_all datetimelike cs
      then Some (map (\<lambda>c. case c of Ts t \<Rightarrow> Some (fst t) | _ \<Rightarrow> None) cs)
      else None)"

text \<open>Elementwise comparisons: any comparison with a null is False.\<close>

definition ge_date :: "date option list \<Rightarrow> date \<Rightarrow> bool list" where
  "ge_date ds x = map (\<lambda>d. case d of None \<Rightarrow> False | Some y \<Rightarrow> x \<le> y) ds"

definition le_date :: "date option list \<Rightarrow> date \<Rightarrow> bool list" where
  "le_date ds x = map (\<lambda>d. case d of None \<Rightarrow> False | Some y \<Rightarrow> y \<le> x) ds"

definition eq_cell :: "cell list \<Rightarrow> cell \<Rightarrow> bool list" where
  "eq_cell cs x = map (\<lambda>c. c \<noteq> NaN \<and> c = x) cs"

definition mask_and :: "bool list \<Rightarrow> bool list \<Rightarrow> bool list" where
  "mask_and xs ys = map (\<lambda>(x, y). x \<and> y) (zip xs ys)"

text \<open>\<open>df[mask]\<close>: the rows where the mask holds.\<close>

definition bool_index :: "dataframe \<Rightarrow> bool list \<Rightarrow> dataframe" where
  "bool_index df m = df\<lparr>rows := map fst (filter snd (zip (rows df) m))\<rparr>"

text \<open>One of the three conditional category filters.\<close>

definition filter_category :: "string \<Rightarrow> cell \<Rightarrow> dataframe \<Rightarrow> dataframe option" where
  "filter_category label selected df =
     (if selected \<noteq> Str ''All'' then
        (case getitem df label of
           None \<Rightarrow> None
         | Some col \<Rightarrow> Some (bool_index df (eq_cell col selected)))
      else Some df)"

definition filtered_df :: "dataframe \<Rightarrow> selection \<Rightarrow> dataframe option" where
  "filtered_df cleaned_df sel =
     (case Option.bind (getitem cleaned_df ''date'') dt_date of
        None \<Rightarrow> None
      | Some ds \<Rightarrow>
          Option.bind
            (Option.bind
               (filter_category ''platform'' (selected_platform sel)
                  (bool_index cleaned_df
                     (mask_and (ge_date ds (start_date sel)) (le_date ds (end_date sel)))))
               (filter_category ''sentiment'' (selected_sentiment sel)))
            (filter_category ''media_type'' (selected_media_type sel)))"

section \<open>The page\<close>

text \<open>
  What the script shows below the file uploader, in order. The uploaded file is the
  frame \<open>pd.read_csv\<close> returned, or \<open>None\<close> before an upload; the sidebar widgets are
  represented by the selection they returned. \<open>None\<close> is an uncaught exception.
\<close>

datatype element =
    Error string
  | Success string
  | SidebarError string
  | Warning string
  | Info string
  | Header string
  | Subheader string
  | Markdown string
  | PieChart "int series"
  | LineChart "rat series"
  | BarChart "rat series"

definition key_insights :: "string list \<Rightarrow> element list" where
  "key_insights insights =
     Markdown ''#### Key Insights'' # map (\<lambda>insight. Markdown (''- '' @ insight)) insights"

definition sentiment_chart :: "dataframe \<Rightarrow> element list option" where
  "sentiment_chart df =
     (case (getitem df ''sentiment'', get_sentiment_insights df) of
        (Some col, Some insights) \<Rightarrow>
          Some (Subheader ''Sentiment Breakdown'' # PieChart (value_counts col)
                # key_insights insights)
      | _ \<Rightarrow> None)"

definition trend_chart :: "pandas \<Rightarrow> dataframe \<Rightarrow> element list option" where
  "trend_chart P df =
     (case (getitem df ''date'', getitem df ''engagements'', get_engagement_trend_insights P df) of
        (Some ds, Some es, Some insights) \<Rightarrow>
          Some (Subheader ''Engagement Trend Over Time'' # LineChart (groupby_sum P ds es)
                # key_insights insights)
      | _ \<Rightarrow> None)"

definition platform_chart :: "pandas \<Rightarrow> dataframe \<Rightarrow> element list option" where
  "platform_chart P df =
     (case (getitem df ''platform'', getitem df ''engagements'', get_platform_insights P df) of
        (Some ps, Some es, Some insights) \<Rightarrow>
          Some (Subheader ''Engagements by Platform''
                # BarChart (sort_values_desc (groupby_sum P ps es))
                # key_insights insights)
      | _ \<Rightarrow> None)"

definition media_type_chart :: "dataframe \<Rightarrow> element list option" where
  "media_type_chart df =
     (case (getitem df ''media_type'', get_media_type_insights df) of
        (Some col, Some insights) \<Rightarrow>
          Some (Subheader ''Media Type Mix'' # PieChart (value_counts col)
                # key_insights insights)
      | _ \<Rightarrow> None)"

text \<open>The aggregate of the fifth chart.\<close>

definition location_engagements :: "pandas \<Rightarrow> dataframe \<Rightarrow> rat series option" where
  "location_engagements P df =
     (case (getitem df ''location'', getitem df ''engagements'') of
        (Some ls, Some es) \<Rightarrow> Some (nlargest 5 (groupby_sum P ls es))
      | _ \<Rightarrow> None)"

definition location_chart :: "pandas \<Rightarrow> dataframe \<Rightarrow> element list option" where
  "location_chart P df =
     (case location_engagements P df of
        None \<Rightarrow> None
      | Some le \<Rightarrow>
          if le \<noteq> [] then
            (case get_location_insights P df of
               None \<Rightarrow> None
             | Some insights \<Rightarrow>
                 Some (Subheader ''Top 5 Locations by Engagement'' # BarChart le
                       # key_insights insights))
          else
            Some [Subheader ''Top 5 Locations by Engagement'',
                  Info ''Not enough location data to display this chart.''])"

definition dashboard :: "pandas \<Rightarrow> dataframe \<Rightarrow> element list option" where
  "dashboard P df =
     Option.bind (sentiment_chart df) (\<lambda>c1.
     Option.bind (trend_chart P df) (\<lambda>c2.
     Option.bind (platform_chart P df) (\<lambda>c3.
     Option.bind (media_type_chart df) (\<lambda>c4.
     Option.bind (location_chart P df) (\<lambda>c5.
       Some (Header ''Visualizations & Insights'' # c1 @ c2 @ c3 @ c4 @ c5))))))"

definition app :: "pandas \<Rightarrow> dataframe option \<Rightarrow> selection \<Rightarrow> element list option" where
  "app P uploaded_file sel =
     (case uploaded_file of
        None \<Rightarrow> Some [Info ''Awaiting CSV file upload.'']
      | Some df \<Rightarrow>
          (case clean_data P df of
             Inl message \<Rightarrow> Some [Error message]
           | Inr cleaned_df \<Rightarrow>
               if end_date sel < start_date sel then
                 Some [Success ''CSV file uploaded and processed successfully!'',
                       SidebarError ''Error: End date must be after start date.'']
               else
                 (case filtered_df cleaned_df sel of
                    None \<Rightarrow> None
                  | Some df' \<Rightarrow>
                      if empty_df df' then
                        Some [Success ''CSV file uploaded and processed successfully!'',
                              Warning ''No data available for the selected filters. Please adjust your filter settings.'']
                      else
                        map_option
                          (\<lambda>es. Success ''CSV file uploaded and processed successfully!'' # es)
                          (dashboard P df'))))"

section \<open>Concrete converters and frames\<close>

text \<open>
  Converters for the concrete instances below. They accept a fragment of what pandas
  accepts: decimal integers, and dates written \<open>YYYY-MM-DD\<close>. A column of such
  integers is an int64 column, whose sums are exact.
\<close>

definition is_digit :: "char \<Rightarrow> bool" where
  "is_digit c = (let n = (of_char c :: nat) in 48 \<le> n \<and> n \<le> 57)"

definition digits_nat :: "string \<Rightarrow> nat" where
  "digits_nat s = foldl (\<lambda>a c. 10 * a + (of_char c - 48)) 0 s"

definition example_numeric :: "cell \<Rightarrow> string + rat" where
  "example_numeric c =
     (case c of
        Num n \<Rightarrow> Inr n
      | Str s \<Rightarrow>
          if s \<noteq> [] \<and> list_all is_digit s then Inr (of_nat (digits_nat s))
          else Inl (''Unable to parse string '' @ s)
      | _ \<Rightarrow> Inl ''Invalid object type'')"

definition example_datetime :: "cell \<Rightarrow> string + timestamp" where
  "example_datetime c =
     (case c of
        Ts t \<Rightarrow> Inr t
      | Str s \<Rightarrow>
          if length s = 10 \<and> list_all is_digit (take 4 s @ take 2 (drop 5 s) @ drop 8 s)
             \<and> s ! 4 = CHR ''-'' \<and> s ! 7 = CHR ''-''
             \<and> 1 \<le> digits_nat (take 2 (drop 5 s)) \<and> digits_nat (take 2 (drop 5 s)) \<le> 12
             \<and> 1 \<le> digits_nat (drop 8 s) \<and> digits_nat (drop 8 s) \<le> 31
          then Inr ((digits_nat (take 4 s), digits_nat (take 2 (drop 5 s)), digits_nat (drop 8 s)), 0)
          else Inl (''Unknown datetime string format, unable to parse: '' @ s)
      | _ \<Rightarrow> Inl ''Invalid object type'')"

definition example_pandas :: pandas where
  "example_pandas =
     \<lparr>to_datetime_el = example_datetime,
      to_numeric_el = example_numeric,
      to_datetime_frame = ''to assemble mappings requires at least that [year, month, day] be specified'',
      to_numeric_frame = ''arg must be a list, tuple, 1-d array, or Series'',
      group_sum = sum_list,
      series_sum = sum_list\<rparr>"

text \<open>
  The arithmetic of a float64 column: \<open>round64\<close> rounds a rational to the nearest
  double, ties to even (53 significant bits; overflow and subnormal numbers are left
  out), and a sum adds from left to right, rounding after each addition.
\<close>

function bit_length :: "int \<Rightarrow> int" where
  "bit_length n = (if n \<le> 0 then 0 else 1 + bit_length (n div 2))"
  by pat_completeness auto

termination
  by (relation "measure nat") auto

declare bit_length.simps [simp del]

definition pow2 :: "int \<Rightarrow> rat" where
  "pow2 e = (if 0 \<le> e then 2 ^ nat e else 1 / 2 ^ nat (- e))"

text \<open>The integer nearest to \<open>n / d\<close> for \<open>0 \<le> n\<close> and \<open>0 < d\<close>, ties to the even one.\<close>

definition nearest_even :: "int \<Rightarrow> int \<Rightarrow> int" where
  "nearest_even n d =
     (let q = n div d; r = n mod d in
      if 2 * r < d then q else if d < 2 * r then q + 1 else if even q then q else q + 1)"

definition round64 :: "rat \<Rightarrow> rat" where
  "round64 x =
     (if x = 0 then 0
      else
        (case quotient_of \<bar>x\<bar> of
           (p, q) \<Rightarrow>
             (let e0 = bit_length p - bit_length q - 53;
                  e = (if \<bar>x\<bar> / pow2 e0 < 2 ^ 53 then e0 else e0 + 1)
              in case quotient_of (\<bar>x\<bar> / pow2 e) of
                   (n, d) \<Rightarrow> sgn x * of_int (nearest_even n d) * pow2 e)))"

definition sum64 :: "rat list \<Rightarrow> rat" where
  "sum64 xs = foldl (\<lambda>a x. round64 (a + x)) 0 xs"

definition float64_pandas :: pandas where
  "float64_pandas = example_pandas\<lparr>group_sum := sum64, series_sum := sum64\<rparr>"

text \<open>The two posts of the specification's first scenario, as uploaded.\<close>

definition two_posts :: dataframe where
  "two_posts =
     \<lparr>columns = [''Date'', ''Platform'', ''Sentiment'', ''Location'', ''Engagements'', ''Media Type''],
      rows = [[Str ''2024-01-01'', Str ''X'', Str ''Positive'', Str ''NY'', Str ''10'', Str ''Video''],
              [Str ''2024-01-01'', Str ''Y'', Str ''Negative'', Str ''NY'', Str ''5'', Str ''Photo'']]\<rparr>"

text \<open>The same posts, cleaned.\<close>

definition two_posts_clean :: dataframe where
  "two_posts_clean =
     \<lparr>columns = [''date'', ''platform'', ''sentiment'', ''location'', ''engagements'', ''media_type''],
      rows = [[Ts ((2024, 1, 1), 0), Str ''X'', Str ''Positive'', Str ''NY'', Num 10, Str ''Video''],
              [Ts ((2024, 1, 1), 0), Str ''Y'', Str ''Negative'', Str ''NY'', Num 5, Str ''Photo'']]\<rparr>"

text \<open>An upload without a location column and with a differently spelled header.\<close>

definition no_location :: dataframe where
  "no_location =
     \<lparr>columns = ['' Date'', ''PLATFORM'', ''Sentiment '', ''Engagements'', ''media type''],
      rows = [[Str ''2024-01-01'', Str ''X'', Str ''Positive'', Str ''10'', Str ''Video'']]\<rparr>"

text \<open>One uploaded post with the given date and engagements fields.\<close>

definition one_post :: "cell \<Rightarrow> cell \<Rightarrow> dataframe" where
  "one_post d e =
     \<lparr>columns = [''Date'', ''Platform'', ''Sentiment'', ''Location'', ''Engagements'', ''Media Type''],
      rows = [[d, Str ''X'', Str ''Positive'', Str ''NY'', e, Str ''Video'']]\<rparr>"

text \<open>A selection that constrains no category.\<close>

definition select_all :: selection where
  "select_all =
     \<lparr>start_date = (2024, 1, 1), end_date = (2024, 12, 31),
      selected_platform = Str ''All'', selected_sentiment = Str ''All'',
      selected_media_type = Str ''All''\<rparr>"

section \<open>The filter as the specification words it\<close>

text \<open>
  The specification's FilterSpec: a date range and, for each category, either no
  constraint or one exact value. \<open>filter_dataset\<close> keeps the records with
  \<open>start \<le> date \<le> end\<close> that satisfy every constraint that is set; a null equals no
  value.
\<close>

record filter_spec =
  date_from :: date
  date_to :: date
  platform_is :: "cell option"
  sentiment_is :: "cell option"
  media_type_is :: "cell option"

definition record_field :: "string list \<Rightarrow> string \<Rightarrow> cell list \<Rightarrow> cell" where
  "record_field cols c r = (case positions c cols of [i] \<Rightarrow> cell_at r i | _ \<Rightarrow> NaN)"

definition in_range :: "date \<Rightarrow> date \<Rightarrow> cell \<Rightarrow> bool" where
  "in_range a b c = (case c of Ts t \<Rightarrow> a \<le> fst t \<and> fst t \<le> b | _ \<Rightarrow> False)"

definition constraint_holds :: "cell option \<Rightarrow> cell \<Rightarrow> bool" where
  "constraint_holds k v = (case k of None \<Rightarrow> True | Some x \<Rightarrow> v \<noteq> NaN \<and> v = x)"

definition filter_dataset :: "dataframe \<Rightarrow> filter_spec \<Rightarrow> dataframe" where
  "filter_dataset ds fs =
     ds\<lparr>rows :=
          [r \<leftarrow> rows ds.
             in_range (date_from fs) (date_to fs) (record_field (columns ds) ''date'' r)
             \<and> constraint_holds (platform_is fs) (record_field (columns ds) ''platform'' r)
             \<and> constraint_holds (sentiment_is fs) (record_field (columns ds) ''sentiment'' r)
             \<and> constraint_holds (media_type_is fs) (record_field (columns ds) ''media_type'' r)]\<rparr>"

text \<open>
  How the script reads a selection: the text \<open>All\<close> is no constraint, any other value
  is a constraint.
\<close>

definition constraint_of :: "cell \<Rightarrow> cell option" where
  "constraint_of selected = (if selected = Str ''All'' then None else Some selected)"

definition spec_of :: "selection \<Rightarrow> filter_spec" where
  "spec_of sel =
     \<lparr>date_from = start_date sel, date_to = end_date sel,
      platform_is = constraint_of (selected_platform sel),
      sentiment_is = constraint_of (selected_sentiment sel),
      media_type_is = constraint_of (selected_media_type sel)\<rparr>"

text \<open>
  When the filtering statements raise nothing: the date column is a datetime Series, and
  each category with a selection other than \<open>All\<close> is a Series.
\<close>

definition filterable :: "dataframe \<Rightarrow> selection \<Rightarrow> bool" where
  "filterable df sel \<longleftrightarrow>
     (case getitem df ''date'' of None \<Rightarrow> False | Some ds \<Rightarrow> list_all datetimelike ds)
     \<and> (selected_platform sel = Str ''All'' \<or> getitem df ''platform'' \<noteq> None)
     \<and> (selected_sentiment sel = Str ''All'' \<or> getitem df ''sentiment'' \<noteq> None)
     \<and> (selected_media_type sel = Str ''All'' \<or> getitem df ''media_type'' \<noteq> None)"

section \<open>More concrete frames\<close>

text \<open>Two cleaned posts, one of them on a platform that is literally named All.\<close>

definition platform_named_all :: dataframe where
  "platform_named_all =
     \<lparr>columns = [''date'', ''platform'', ''sentiment'', ''location'', ''engagements'', ''media_type''],
      rows = [[Ts ((2024, 1, 1), 0), Str ''All'', Str ''Positive'', Str ''NY'', Num 10, Str ''Video''],
              [Ts ((2024, 1, 2), 0), Str ''X'', Str ''Negative'', Str ''LA'', Num 5, Str ''Photo'']]\<rparr>"

definition select_platform :: "cell \<Rightarrow> selection" where
  "select_platform p = select_all\<lparr>selected_platform := p\<rparr>"

text \<open>Cleaned posts without any location, and a frame with six locations.\<close>

definition null_locations :: dataframe where
  "null_locations =
     \<lparr>columns = [''date'', ''platform'', ''sentiment'', ''location'', ''engagements'', ''media_type''],
      rows = [[Ts ((2024, 1, 1), 0), Str ''X'', Str ''Positive'', NaN, Num 10, Str ''Video''],
              [Ts ((2024, 1, 2), 0), Str ''Y'', Str ''Negative'', NaN, Num 5, Str ''Photo'']]\<rparr>"

definition six_locations :: dataframe where
  "six_locations =
     \<lparr>columns = [''location'', ''engagements''],
      rows = [[Str ''A'', Num 3], [Str ''B'', Num 9], [Str ''C'', Num 1], [Str ''D'', Num 7],
              [Str ''E'', Num 5], [Str ''F'', Num 8], [Str ''B'', Num 2]]\<rparr>"

text \<open>The doubles nearest to 0.1, 0.2, 0.4 and 0.7, and the double that follows the last.\<close>

definition double_0_1 :: rat where
  "double_0_1 = 3602879701896397 / 36028797018963968"

definition double_0_2 :: rat where
  "double_0_2 = 3602879701896397 / 18014398509481984"

definition double_0_4 :: rat where
  "double_0_4 = 3602879701896397 / 9007199254740992"

definition double_0_7 :: rat where
  "double_0_7 = 6305039478318694 / 9007199254740992"

definition double_after_0_7 :: rat where
  "double_after_0_7 = 6305039478318695 / 9007199254740992"


definition fractional_posts :: dataframe where
  "fractional_posts =
     \<lparr>columns = [''date'', ''platform'', ''sentiment'', ''location'', ''engagements'', ''media_type''],
      rows = [[Ts ((2024, 1, 1), 0), Str ''X'', Str ''Positive'', Str ''NY'', Num double_0_1, Str ''Video''],
              [Ts ((2024, 1, 2), 0), Str ''Y'', Str ''Negative'', Str ''LA'', Num double_0_2, Str ''Photo''],
              [Ts ((2024, 1, 3), 0), Str ''X'', Str ''Neutral'', Str ''NY'', Num double_0_4, Str ''Video'']]\<rparr>"

section \<open>Frames: basic facts\<close>

lemma positions_single:
  "positions c cs = [i] \<Longrightarrow> i < length cs \<and> cs ! i = c"
proof -
  assume h: "positions c cs = [i]"
  have "i \<in> set (positions c cs)" using h by simp
  then show ?thesis by (auto simp: positions_def)
qed

lemma positions_empty_iff: "positions c cs = [] \<longleftrightarrow> c \<notin> set cs"
  by (auto simp: positions_def filter_empty_conv in_set_conv_nth)

lemma cell_at_set_cell: "cell_at (set_cell r i v) j = (if j = i then v else cell_at r j)"
  by (auto simp: cell_at_def set_cell_def nth_append nth_list_update)

lemma columns_setitem [simp]: "columns (setitem df c vs) = columns df"
  by (simp add: setitem_def split: list.splits)

lemma length_rows_setitem:
  "length vs = length (rows df) \<Longrightarrow> length (rows (setitem df c vs)) = length (rows df)"
  by (simp add: setitem_def split: list.splits)

lemma getitem_setitem_same:
  assumes "getitem df c = Some old" "length vs = length (rows df)"
  shows "getitem (setitem df c vs) c = Some vs"
proof -
  from assms(1) obtain i where i: "positions c (columns df) = [i]"
    by (auto simp: getitem_def split: list.splits)
  have "map (\<lambda>r. cell_at r i) (map (\<lambda>(r, v). set_cell r i v) (zip (rows df) vs)) = map snd (zip (rows df) vs)"
    by (auto simp: cell_at_set_cell)
  also have "\<dots> = vs" using assms(2) by simp
  finally show ?thesis using i by (simp add: getitem_def setitem_def)
qed

lemma column_setitem_other:
  assumes "positions c (columns df) = [i]" "j \<noteq> i" "length vs = length (rows df)"
  shows "map (\<lambda>r. cell_at r j) (rows (setitem df c vs)) = map (\<lambda>r. cell_at r j) (rows df)"
proof -
  have "map (\<lambda>r. cell_at r j) (map (\<lambda>(r, v). set_cell r i v) (zip (rows df) vs)) = map (\<lambda>r. cell_at r j) (map fst (zip (rows df) vs))"
    using assms(2) by (auto simp: cell_at_set_cell)
  also have "\<dots> = map (\<lambda>r. cell_at r j) (rows df)" using assms(3) by simp
  finally show ?thesis using assms(1) by (simp add: setitem_def)
qed

lemma getitem_setitem_other:
  assumes "c' \<noteq> c" "length vs = length (rows df)"
  shows "getitem (setitem df c vs) c' = getitem df c'"
proof (cases "\<exists>i. positions c (columns df) = [i]")
  case False
  then have "setitem df c vs = df" by (auto simp: setitem_def split: list.splits)
  then show ?thesis by simp
next
  case True
  then obtain i where i: "positions c (columns df) = [i]" by blast
  show ?thesis
  proof (cases "\<exists>j. positions c' (columns df) = [j]")
    case False
    then show ?thesis by (auto simp: getitem_def split: list.splits)
  next
    case True
    then obtain j where j: "positions c' (columns df) = [j]" by blast
    from positions_single[OF i] positions_single[OF j] assms(1) have "j \<noteq> i" by auto
    from column_setitem_other[OF i this assms(2)] j show ?thesis
      by (simp add: getitem_def)
  qed
qed

lemma to_datetime_Inr:
  "to_datetime P cs = Inr ds \<Longrightarrow>
     ds = map (\<lambda>c. if c = NaN then NaN else (case to_datetime_el P c of Inr t \<Rightarrow> Ts t | Inl e \<Rightarrow> NaN)) cs
     \<and> (\<forall>c \<in> set cs. c \<noteq> NaN \<longrightarrow> \<not> isl (to_datetime_el P c))"
proof (induction cs arbitrary: ds)
  case Nil then show ?case by simp
next
  case (Cons c cs)
  show ?case
  proof (cases "to_datetime P cs")
    case (Inl e)
    with Cons.prems show ?thesis by (auto split: if_splits sum.splits)
  next
    case (Inr ds')
    from Cons.IH[OF Inr] Cons.prems Inr show ?thesis
      by (cases "to_datetime_el P c") (auto split: if_splits)
  qed
qed

lemma to_numeric_Inr:
  "to_numeric P cs = Inr ns \<Longrightarrow>
     ns = map (\<lambda>c. if c = NaN then NaN else (case to_numeric_el P c of Inr n \<Rightarrow> Num n | Inl e \<Rightarrow> NaN)) cs
     \<and> (\<forall>c \<in> set cs. c \<noteq> NaN \<longrightarrow> \<not> isl (to_numeric_el P c))"
proof (induction cs arbitrary: ns)
  case Nil then show ?case by simp
next
  case (Cons c cs)
  show ?case
  proof (cases "to_numeric P cs")
    case (Inl e)
    with Cons.prems show ?thesis by (auto split: if_splits sum.splits)
  next
    case (Inr ns')
    from Cons.IH[OF Inr] Cons.prems Inr show ?thesis
      by (cases "to_numeric_el P c") (auto split: if_splits)
  qed
qed

lemma to_datetime_fails:
  "c \<in> set cs \<Longrightarrow> c \<noteq> NaN \<Longrightarrow> to_datetime_el P c = Inl e \<Longrightarrow> \<exists>e'. to_datetime P cs = Inl e'"
proof (induction cs)
  case Nil then show ?case by simp
next
  case (Cons a cs)
  then show ?case
    by (cases "to_datetime_el P a"; cases "to_datetime P cs") (auto split: if_splits)
qed

lemma to_numeric_fails:
  "c \<in> set cs \<Longrightarrow> c \<noteq> NaN \<Longrightarrow> to_numeric_el P c = Inl e \<Longrightarrow> \<exists>e'. to_numeric P cs = Inl e'"
proof (induction cs)
  case Nil then show ?case by simp
next
  case (Cons a cs)
  then show ?case
    by (cases "to_numeric_el P a"; cases "to_numeric P cs") (auto split: if_splits)
qed

lemma to_numeric_succeeds:
  "\<forall>c \<in> set cs. c \<noteq> NaN \<longrightarrow> (\<exists>n. to_numeric_el P c = Inr n) \<Longrightarrow> \<exists>ns. to_numeric P cs = Inr ns"
  by (induction cs) auto

lemma to_datetime_succeeds:
  "\<forall>c \<in> set cs. c \<noteq> NaN \<longrightarrow> (\<exists>n. to_datetime_el P c = Inr n) \<Longrightarrow> \<exists>ns. to_datetime P cs = Inr ns"
  by (induction cs) auto

lemma positions_unique:
  assumes "positions c cs = [i]" "j < length cs" "cs ! j = c"
  shows "j = i"
proof -
  have "j \<in> set (positions c cs)" using assms(2,3) by (simp add: positions_def)
  with assms(1) show ?thesis by simp
qed

lemma getitem_length: "getitem df c = Some vs \<Longrightarrow> length vs = length (rows df)"
  by (auto simp: getitem_def split: list.splits)

lemma getitem_None_setitem: "getitem df c = None \<Longrightarrow> getitem (setitem df c' vs) c = None"
  by (auto simp: getitem_def setitem_def split: list.splits)

lemma to_datetime_length: "to_datetime P cs = Inr ds \<Longrightarrow> length ds = length cs"
  by (drule to_datetime_Inr) simp

lemma to_numeric_length: "to_numeric P cs = Inr ds \<Longrightarrow> length ds = length cs"
  by (drule to_numeric_Inr) simp

lemma convert_types_Inr:
  assumes "convert_types P df = Inr df'"
  shows "\<exists>ds ds' es es'.
           getitem df ''date'' = Some ds \<and> to_datetime P ds = Inr ds'
         \<and> getitem df ''engagements'' = Some es \<and> to_numeric P es = Inr es'
         \<and> df' = setitem (setitem df ''date'' ds') ''engagements'' (fillna (Num 0) es')"
proof -
  from assms obtain ds where ds: "getitem df ''date'' = Some ds"
    by (auto simp: convert_types_def split: option.splits)
  from assms ds obtain ds' where ds': "to_datetime P ds = Inr ds'"
    by (auto simp: convert_types_def split: sum.splits)
  let ?df1 = "setitem df ''date'' ds'"
  from assms ds ds' obtain es where es1: "getitem ?df1 ''engagements'' = Some es"
    by (auto simp: convert_types_def Let_def split: option.splits)
  from assms ds ds' es1 obtain es' where es': "to_numeric P es = Inr es'"
    by (auto simp: convert_types_def Let_def split: sum.splits)
  have len: "length ds' = length (rows df)"
    using to_datetime_length[OF ds'] getitem_length[OF ds] by simp
  have es: "getitem df ''engagements'' = Some es"
    using getitem_setitem_other[of "''engagements''" "''date''" ds' df] len es1 by simp
  from assms ds ds' es1 es' have "df' = setitem ?df1 ''engagements'' (fillna (Num 0) es')"
    by (simp add: convert_types_def Let_def)
  with ds ds' es es' show ?thesis by blast
qed

lemma clean_data_Inr:
  assumes "clean_data P df = Inr df'"
  shows "missing_columns (df\<lparr>columns := map normalize_column (columns df)\<rparr>) = []
       \<and> convert_types P (df\<lparr>columns := map normalize_column (columns df)\<rparr>) = Inr df'"
  using assms by (auto simp: clean_data_def Let_def split: if_splits sum.splits)

lemma clean_data_Inl_iff:
  "isl (clean_data P df) \<longleftrightarrow>
     missing_columns (df\<lparr>columns := map normalize_column (columns df)\<rparr>) \<noteq> []
     \<or> isl (convert_types P (df\<lparr>columns := map normalize_column (columns df)\<rparr>))"
  by (auto simp: clean_data_def Let_def split: sum.splits)

section \<open>Schema validation\<close>

lemma set_missing_columns:
  "set (missing_columns df) = {c \<in> set required_columns. c \<notin> set (columns df)}"
  by (auto simp: missing_columns_def)

lemma distinct_missing_columns: "distinct (missing_columns df)"
  by (simp add: missing_columns_def required_columns_def)

text \<open>
  C4. A table that lacks one or more required columns after the labels are normalized
  (trimmed, lower-cased, spaces replaced by underscores) is rejected, and the error text
  lists every missing required column, each once: the listed columns are exactly the
  required columns absent from the normalized labels.
\<close>

theorem clean_data_names_every_missing_column:
  assumes "\<exists>c \<in> set required_columns. c \<notin> normalize_column ` set (columns df)"
  shows "\<exists>missing.
           clean_data P df =
             Inl (''Error: The following required columns are missing from your CSV file: ''
                  @ join '', '' missing)
           \<and> set missing = {c \<in> set required_columns. c \<notin> normalize_column ` set (columns df)}
           \<and> distinct missing"
proof -
  let ?df = "df\<lparr>columns := map normalize_column (columns df)\<rparr>"
  have s: "set (missing_columns ?df) = {c \<in> set required_columns. c \<notin> normalize_column ` set (columns df)}"
    by (simp add: set_missing_columns)
  with assms have "missing_columns ?df \<noteq> []" by (metis (mono_tags, lifting) empty_iff empty_set mem_Collect_eq)
  then have "clean_data P df =
             Inl (''Error: The following required columns are missing from your CSV file: ''
                  @ join '', '' (missing_columns ?df))"
    by (simp add: clean_data_def Let_def)
  with s distinct_missing_columns show ?thesis by blast
qed

lemma no_location_normalized:
  "map normalize_column (columns no_location) = [''date'', ''platform'', ''sentiment'', ''engagements'', ''media_type'']"
  by code_simp

theorem clean_data_names_every_missing_column_witness:
  "(\<exists>c \<in> set required_columns. c \<notin> normalize_column ` set (columns no_location))
   \<and> (\<exists>missing.
           clean_data example_pandas no_location =
             Inl (''Error: The following required columns are missing from your CSV file: ''
                  @ join '', '' missing)
           \<and> set missing = {c \<in> set required_columns. c \<notin> normalize_column ` set (columns no_location)}
           \<and> distinct missing)"
proof -
  have "''location'' \<in> set required_columns" by (simp add: required_columns_def)
  moreover have "''location'' \<notin> normalize_column ` set (columns no_location)"
    using no_location_normalized by (simp flip: set_map)
  ultimately have h: "\<exists>c \<in> set required_columns. c \<notin> normalize_column ` set (columns no_location)"
    by blast
  from h clean_data_names_every_missing_column[OF h, of example_pandas] show ?thesis by blast
qed

section \<open>Type conversion\<close>

lemma convert_types_succeeds:
  assumes ds: "getitem df ''date'' = Some ds"
    and es: "getitem df ''engagements'' = Some es"
    and pd: "\<forall>c \<in> set ds. c \<noteq> NaN \<longrightarrow> \<not> isl (to_datetime_el P c)"
    and pe: "\<forall>c \<in> set es. c \<noteq> NaN \<longrightarrow> \<not> isl (to_numeric_el P c)"
  shows "\<exists>df'. convert_types P df = Inr df'"
proof -
  have "\<forall>c \<in> set ds. c \<noteq> NaN \<longrightarrow> (\<exists>n. to_datetime_el P c = Inr n)"
    using pd by (metis sum.collapse(2))
  from to_datetime_succeeds[OF this] obtain ds' where ds': "to_datetime P ds = Inr ds'" by blast
  have "\<forall>c \<in> set es. c \<noteq> NaN \<longrightarrow> (\<exists>n. to_numeric_el P c = Inr n)"
    using pe by (metis sum.collapse(2))
  from to_numeric_succeeds[OF this] obtain es' where es': "to_numeric P es = Inr es'" by blast
  have len: "length ds' = length (rows df)"
    using to_datetime_length[OF ds'] getitem_length[OF ds] by simp
  have "getitem (setitem df ''date'' ds') ''engagements'' = Some es"
    using getitem_setitem_other[of "''engagements''" "''date''" ds' df] len es by simp
  with ds ds' es' show ?thesis by (simp add: convert_types_def Let_def)
qed

lemma convert_types_bad_number:
  assumes es: "getitem df ''engagements'' = Some es"
    and c: "c \<in> set es" "c \<noteq> NaN" "isl (to_numeric_el P c)"
  shows "isl (convert_types P df)"
proof (cases "convert_types P df")
  case (Inl e) then show ?thesis by simp
next
  case (Inr df')
  from convert_types_Inr[OF this] es obtain es' where "to_numeric P es = Inr es'" by auto
  from to_numeric_Inr[OF this] c show ?thesis by blast
qed

lemma convert_types_bad_date:
  assumes i: "i < length (columns df)" "columns df ! i = ''date''"
    and r: "r \<in> set (rows df)" "cell_at r i \<noteq> NaN" "isl (to_datetime_el P (cell_at r i))"
  shows "isl (convert_types P df)"
proof (cases "convert_types P df")
  case (Inl e) then show ?thesis by simp
next
  case (Inr df')
  from convert_types_Inr[OF this] obtain ds ds' where
    ds: "getitem df ''date'' = Some ds" and ds': "to_datetime P ds = Inr ds'" by blast
  from ds obtain p where p: "positions ''date'' (columns df) = [p]"
    by (auto simp: getitem_def split: list.splits)
  from positions_unique[OF p i] have "i = p" .
  with ds p r(1) have "cell_at r i \<in> set ds" by (auto simp: getitem_def)
  with to_datetime_Inr[OF ds'] r(2,3) show ?thesis by blast
qed

lemma getitem_clean_engagements:
  assumes "clean_data P df = Inr df'"
    and es: "getitem (df\<lparr>columns := map normalize_column (columns df)\<rparr>) ''engagements'' = Some es"
  shows "getitem df' ''engagements''
           = Some (map (\<lambda>c. if c = NaN then Num 0
                             else Num (projr (to_numeric_el P c))) es)"
proof -
  let ?dfn = "df\<lparr>columns := map normalize_column (columns df)\<rparr>"
  from clean_data_Inr[OF assms(1)] have "convert_types P ?dfn = Inr df'" by simp
  from convert_types_Inr[OF this] es obtain ds ds' es' where
    ds: "getitem ?dfn ''date'' = Some ds" and ds': "to_datetime P ds = Inr ds'" and
    es': "to_numeric P es = Inr es'" and
    df': "df' = setitem (setitem ?dfn ''date'' ds') ''engagements'' (fillna (Num 0) es')"
    by auto
  let ?df1 = "setitem ?dfn ''date'' ds'"
  have l1: "length ds' = length (rows ?dfn)"
    using to_datetime_length[OF ds'] getitem_length[OF ds] by simp
  have r1: "length (rows ?df1) = length (rows ?dfn)" by (rule length_rows_setitem[OF l1])
  have l2: "length (fillna (Num 0) es') = length (rows ?df1)"
    using to_numeric_length[OF es'] getitem_length[OF es] r1 by (simp add: fillna_def)
  have e1: "getitem ?df1 ''engagements'' = Some es"
    using getitem_setitem_other[of "''engagements''" "''date''" ds' ?dfn] l1 es by simp
  have "getitem df' ''engagements'' = Some (fillna (Num 0) es')"
    unfolding df' by (rule getitem_setitem_same[OF e1 l2])
  moreover have "fillna (Num 0) es' = map (\<lambda>c. if c = NaN then Num 0
                             else Num (projr (to_numeric_el P c))) es"
    using to_numeric_Inr[OF es'] by (auto simp: fillna_def split: sum.splits)
  ultimately show ?thesis by simp
qed

text \<open>
  C10. When \<open>clean_data\<close> succeeds, the labels of the result are the normalized labels
  of the input, the number of rows is the same, and every column whose normalized label
  is neither \<open>date\<close> nor \<open>engagements\<close> holds the cells it held in the input; in
  particular the platform, sentiment, location and media_type columns are unchanged.
\<close>

theorem clean_data_frame:
  assumes "clean_data P df = Inr df'"
  shows "columns df' = map normalize_column (columns df)
       \<and> length (rows df') = length (rows df)
       \<and> (\<forall>i < length (columns df).
            normalize_column (columns df ! i) \<notin> {''date'', ''engagements''} \<longrightarrow>
            map (\<lambda>r. cell_at r i) (rows df') = map (\<lambda>r. cell_at r i) (rows df))
       \<and> (\<forall>c \<in> {''platform'', ''sentiment'', ''location'', ''media_type''}.
            getitem df' c = getitem (df\<lparr>columns := map normalize_column (columns df)\<rparr>) c)"
proof -
  let ?dfn = "df\<lparr>columns := map normalize_column (columns df)\<rparr>"
  from clean_data_Inr[OF assms] have "convert_types P ?dfn = Inr df'" by simp
  from convert_types_Inr[OF this] obtain ds ds' es es' where
    ds: "getitem ?dfn ''date'' = Some ds" and ds': "to_datetime P ds = Inr ds'" and
    es: "getitem ?dfn ''engagements'' = Some es" and es': "to_numeric P es = Inr es'" and
    df': "df' = setitem (setitem ?dfn ''date'' ds') ''engagements'' (fillna (Num 0) es')"
    by blast
  let ?df1 = "setitem ?dfn ''date'' ds'"
  have l1: "length ds' = length (rows ?dfn)"
    using to_datetime_length[OF ds'] getitem_length[OF ds] by simp
  have r1: "length (rows ?df1) = length (rows ?dfn)" by (rule length_rows_setitem[OF l1])
  have l2: "length (fillna (Num 0) es') = length (rows ?df1)"
    using to_numeric_length[OF es'] getitem_length[OF es] r1 by (simp add: fillna_def)
  have c: "columns df' = map normalize_column (columns df)" by (simp add: df')
  have r: "length (rows df') = length (rows df)"
    using length_rows_setitem[OF l2] r1 by (simp add: df')
  from ds obtain pd where pd: "positions ''date'' (columns ?dfn) = [pd]"
    by (auto simp: getitem_def split: list.splits)
  from es obtain pe where pe: "positions ''engagements'' (columns ?dfn) = [pe]"
    by (auto simp: getitem_def split: list.splits)
  have pe1: "positions ''engagements'' (columns ?df1) = [pe]" using pe by simp
  have cells: "map (\<lambda>r. cell_at r i) (rows df') = map (\<lambda>r. cell_at r i) (rows df)"
    if i: "i < length (columns df)"
      and n: "normalize_column (columns df ! i) \<notin> {''date'', ''engagements''}" for i
  proof -
    have "i \<noteq> pd" using positions_single[OF pd] i n by auto
    moreover have "i \<noteq> pe" using positions_single[OF pe] i n by auto
    ultimately show ?thesis
      using column_setitem_other[OF pe1 _ l2, of i] column_setitem_other[OF pd _ l1, of i]
      by (simp add: df')
  qed
  have cols: "getitem df' c = getitem ?dfn c"
    if "c \<in> {''platform'', ''sentiment'', ''location'', ''media_type''}" for c
  proof -
    from that have "c \<noteq> ''date''" "c \<noteq> ''engagements''" by auto
    then show ?thesis
      using getitem_setitem_other[of c "''engagements''" "fillna (Num 0) es'" ?df1, OF _ l2]
            getitem_setitem_other[of c "''date''" ds' ?dfn, OF _ l1]
      by (simp add: df')
  qed
  from c r cells cols show ?thesis by blast
qed

theorem clean_data_frame_witness:
  "clean_data example_pandas two_posts = Inr two_posts_clean
   \<and> getitem two_posts_clean ''platform''
       = getitem (two_posts\<lparr>columns := map normalize_column (columns two_posts)\<rparr>) ''platform''
   \<and> getitem two_posts_clean ''platform'' = Some [Str ''X'', Str ''Y'']"
proof -
  have h: "clean_data example_pandas two_posts = Inr two_posts_clean" by code_simp
  have v: "getitem two_posts_clean ''platform'' = Some [Str ''X'', Str ''Y'']" by code_simp
  from clean_data_frame[OF h] have
    "getitem two_posts_clean ''platform''
       = getitem (two_posts\<lparr>columns := map normalize_column (columns two_posts)\<rparr>) ''platform''"
    by simp
  with h v show ?thesis by simp
qed

lemma to_numeric_Inl:
  "to_numeric P cs = Inl e \<Longrightarrow> \<exists>c \<in> set cs. c \<noteq> NaN \<and> to_numeric_el P c = Inl e"
proof (induction cs)
  case Nil then show ?case by simp
next
  case (Cons a cs)
  then show ?case
    by (cases "to_numeric_el P a"; cases "to_numeric P cs") (auto split: if_splits)
qed

lemma convert_types_numeric_error:
  assumes ds: "getitem df ''date'' = Some ds"
    and es: "getitem df ''engagements'' = Some es"
    and pd: "\<forall>c \<in> set ds. c \<noteq> NaN \<longrightarrow> \<not> isl (to_datetime_el P c)"
    and bad: "\<exists>c \<in> set es. c \<noteq> NaN \<and> isl (to_numeric_el P c)"
  shows "\<exists>c \<in> set es. \<exists>e. c \<noteq> NaN \<and> to_numeric_el P c = Inl e \<and> convert_types P df = Inl e"
proof -
  have "\<forall>c \<in> set ds. c \<noteq> NaN \<longrightarrow> (\<exists>n. to_datetime_el P c = Inr n)"
    using pd by (metis sum.collapse(2))
  from to_datetime_succeeds[OF this] obtain ds' where ds': "to_datetime P ds = Inr ds'" by blast
  have len: "length ds' = length (rows df)"
    using to_datetime_length[OF ds'] getitem_length[OF ds] by simp
  have es1: "getitem (setitem df ''date'' ds') ''engagements'' = Some es"
    using getitem_setitem_other[of "''engagements''" "''date''" ds' df] len es by simp
  obtain e where e: "to_numeric P es = Inl e"
  proof (cases "to_numeric P es")
    case (Inl e) then show ?thesis using that by blast
  next
    case (Inr es')
    from to_numeric_Inr[OF this] bad show ?thesis by blast
  qed
  from to_numeric_Inl[OF e] obtain c where c: "c \<in> set es" "c \<noteq> NaN" "to_numeric_el P c = Inl e"
    by blast
  have "convert_types P df = Inl e" using ds ds' es1 e by (simp add: convert_types_def Let_def)
  with c show ?thesis by blast
qed

text \<open>
  C1, as the code has it. On a table that passes the schema check and whose dates
  convert, \<open>clean_data\<close> fails as soon as one non-null engagements entry fails numeric
  parsing: it returns no frame and shows the \<open>Error processing data\<close> message, which
  carries the text of the exception raised for such an entry. Otherwise it succeeds,
  every null engagements entry becomes 0 and every other entry becomes the number it
  parses to.
\<close>

theorem clean_data_engagements:
  assumes "missing_columns (df\<lparr>columns := map normalize_column (columns df)\<rparr>) = []"
    and "getitem (df\<lparr>columns := map normalize_column (columns df)\<rparr>) ''date'' = Some ds"
    and "getitem (df\<lparr>columns := map normalize_column (columns df)\<rparr>) ''engagements'' = Some es"
    and "\<forall>c \<in> set ds. c \<noteq> NaN \<longrightarrow> \<not> isl (to_datetime_el P c)"
  shows "(if \<exists>c \<in> set es. c \<noteq> NaN \<and> isl (to_numeric_el P c)
          then \<exists>c \<in> set es. \<exists>e.
                 c \<noteq> NaN \<and> to_numeric_el P c = Inl e
                 \<and> clean_data P df =
                     Inl (''Error processing data: '' @ e
                          @ ''. Please check the format of your 'Date' and 'Engagements' columns.'')
          else \<exists>df'. clean_data P df = Inr df'
                 \<and> getitem df' ''engagements''
                     = Some (map (\<lambda>c. if c = NaN then Num 0
                                       else Num (projr (to_numeric_el P c))) es))"
proof (cases "\<exists>c \<in> set es. c \<noteq> NaN \<and> isl (to_numeric_el P c)")
  case True
  from convert_types_numeric_error[OF assms(2,3,4) True] obtain c e where
    c: "c \<in> set es" "c \<noteq> NaN" "to_numeric_el P c = Inl e" and
    e: "convert_types P (df\<lparr>columns := map normalize_column (columns df)\<rparr>) = Inl e"
    by blast
  from e assms(1) have "clean_data P df =
                     Inl (''Error processing data: '' @ e
                          @ ''. Please check the format of your 'Date' and 'Engagements' columns.'')"
    by (simp add: clean_data_def Let_def)
  with c True show ?thesis by auto
next
  case False
  then have "\<forall>c \<in> set es. c \<noteq> NaN \<longrightarrow> \<not> isl (to_numeric_el P c)" by blast
  from convert_types_succeeds[OF assms(2,3,4) this] obtain df' where
    "convert_types P (df\<lparr>columns := map normalize_column (columns df)\<rparr>) = Inr df'" by blast
  with assms(1) have c: "clean_data P df = Inr df'" by (simp add: clean_data_def Let_def)
  from getitem_clean_engagements[OF c assms(3)] c False show ?thesis by auto
qed

theorem clean_data_engagements_witness:
  "(\<exists>df'. clean_data example_pandas (one_post (Str ''2024-01-01'') NaN) = Inr df'
          \<and> getitem df' ''engagements'' = Some [Num 0])
   \<and> (\<exists>e. to_numeric_el example_pandas (Str ''abc'') = Inl e
          \<and> clean_data example_pandas (one_post (Str ''2024-01-01'') (Str ''abc''))
              = Inl (''Error processing data: '' @ e
                     @ ''. Please check the format of your 'Date' and 'Engagements' columns.''))"
proof -
  let ?df = "one_post (Str ''2024-01-01'') NaN"
  let ?dfn = "?df\<lparr>columns := map normalize_column (columns ?df)\<rparr>"
  have m: "missing_columns ?dfn = []" by code_simp
  have d: "getitem ?dfn ''date'' = Some [Str ''2024-01-01'']" by code_simp
  have e: "getitem ?dfn ''engagements'' = Some [NaN]" by code_simp
  have p: "\<forall>c \<in> set [Str ''2024-01-01'']. c \<noteq> NaN \<longrightarrow> \<not> isl (to_datetime_el example_pandas c)"
    by code_simp
  from clean_data_engagements[OF m d e p]
  have 1: "\<exists>df'. clean_data example_pandas ?df = Inr df' \<and> getitem df' ''engagements'' = Some [Num 0]"
    by simp
  let ?bad = "one_post (Str ''2024-01-01'') (Str ''abc'')"
  let ?badn = "?bad\<lparr>columns := map normalize_column (columns ?bad)\<rparr>"
  have m': "missing_columns ?badn = []" by code_simp
  have d': "getitem ?badn ''date'' = Some [Str ''2024-01-01'']" by code_simp
  have e': "getitem ?badn ''engagements'' = Some [Str ''abc'']" by code_simp
  have b: "isl (to_numeric_el example_pandas (Str ''abc''))" by code_simp
  from clean_data_engagements[OF m' d' e' p] b
  have 2: "\<exists>e. to_numeric_el example_pandas (Str ''abc'') = Inl e
          \<and> clean_data example_pandas ?bad
              = Inl (''Error processing data: '' @ e
                     @ ''. Please check the format of your 'Date' and 'Engagements' columns.'')"
    by simp
  from 1 2 show ?thesis by blast
qed

text \<open>
  C1 as stated fails: the table passes the schema check, the engagements entry \<open>abc\<close>
  fails numeric parsing, and the run fails instead of reading the entry as 0.
\<close>

theorem non_numeric_engagements_counterexample:
  "missing_columns (one_post (Str ''2024-01-01'') (Str ''abc'')
                      \<lparr>columns := map normalize_column
                                     (columns (one_post (Str ''2024-01-01'') (Str ''abc'')))\<rparr>) = []
   \<and> to_numeric_el example_pandas (Str ''abc'') = Inl ''Unable to parse string abc''
   \<and> clean_data example_pandas (one_post (Str ''2024-01-01'') (Str ''abc''))
       = Inl ''Error processing data: Unable to parse string abc. Please check the format of your 'Date' and 'Engagements' columns.''"
  by code_simp

text \<open>
  C5. If some non-null cell of a column whose normalized label is \<open>date\<close> does not
  convert to a timestamp, \<open>clean_data\<close> returns no frame, and the page shows the error
  and nothing else: no filter, chart or insight is computed.
\<close>

theorem unparseable_date_rejects_dataset:
  assumes "i < length (columns df)" "normalize_column (columns df ! i) = ''date''"
    and "r \<in> set (rows df)" "cell_at r i \<noteq> NaN" "isl (to_datetime_el P (cell_at r i))"
  shows "\<exists>message. clean_data P df = Inl message \<and> app P (Some df) sel = Some [Error message]"
proof -
  let ?dfn = "df\<lparr>columns := map normalize_column (columns df)\<rparr>"
  have "isl (convert_types P ?dfn)"
    by (rule convert_types_bad_date[of i _ r]) (use assms in simp_all)
  then have "isl (clean_data P df)" by (simp add: clean_data_Inl_iff)
  then obtain message where m: "clean_data P df = Inl message" by (cases "clean_data P df") auto
  then have "app P (Some df) sel = Some [Error message]" by (simp add: app_def)
  with m show ?thesis by blast
qed

theorem unparseable_date_rejects_dataset_witness:
  "\<exists>message. clean_data example_pandas (one_post (Str ''yesterday'') (Str ''3'')) = Inl message
      \<and> app example_pandas (Some (one_post (Str ''yesterday'') (Str ''3''))) select_all
          = Some [Error message]"
proof -
  let ?df = "one_post (Str ''yesterday'') (Str ''3'')"
  let ?r = "[Str ''yesterday'', Str ''X'', Str ''Positive'', Str ''NY'', Str ''3'', Str ''Video'']"
  have 1: "0 < length (columns ?df)" by code_simp
  have 2: "normalize_column (columns ?df ! 0) = ''date''" by code_simp
  have 3: "?r \<in> set (rows ?df)" by code_simp
  have 4: "cell_at ?r 0 \<noteq> NaN" by code_simp
  have 5: "isl (to_datetime_el example_pandas (cell_at ?r 0))" by code_simp
  from unparseable_date_rejects_dataset[OF 1 2 3 4 5] show ?thesis .
qed

section \<open>Filtering\<close>

lemma bool_index_map: "bool_index df (map p (rows df)) = df\<lparr>rows := filter p (rows df)\<rparr>"
proof -
  have "map fst (filter snd (zip xs (map p xs))) = filter p xs" for xs :: "cell list list"
    by (induction xs) auto
  then show ?thesis by (simp add: bool_index_def)
qed

lemma getitem_Some:
  "getitem df c = Some col \<Longrightarrow>
     col = map (record_field (columns df) c) (rows df)"
  by (auto simp: getitem_def record_field_def split: list.splits)

lemma mask_and_map: "mask_and (map f xs) (map g xs) = map (\<lambda>x. f x \<and> g x) xs"
  by (induction xs) (auto simp: mask_and_def)

lemma date_mask:
  "mask_and (ge_date (map (\<lambda>c. case c of Ts t \<Rightarrow> Some (fst t) | _ \<Rightarrow> None) (map f xs)) a)
            (le_date (map (\<lambda>c. case c of Ts t \<Rightarrow> Some (fst t) | _ \<Rightarrow> None) (map f xs)) b)
   = map (\<lambda>x. in_range a b (f x)) xs"
proof -
  have "(case (case c of Ts t \<Rightarrow> Some (fst t) | _ \<Rightarrow> None) of None \<Rightarrow> False | Some y \<Rightarrow> a \<le> y)
        \<and> (case (case c of Ts t \<Rightarrow> Some (fst t) | _ \<Rightarrow> None) of None \<Rightarrow> False | Some y \<Rightarrow> y \<le> b)
        \<longleftrightarrow> in_range a b c" for c
    by (cases c) (auto simp: in_range_def)
  then show ?thesis
    by (simp add: ge_date_def le_date_def mask_and_map comp_def)
qed

lemma filter_category_Some:
  assumes "filter_category c x df = Some f"
  shows "f = df\<lparr>rows := filter (\<lambda>r. constraint_holds (constraint_of x) (record_field (columns df) c r)) (rows df)\<rparr>"
proof (cases "x = Str ''All''")
  case True
  with assms show ?thesis by (simp add: filter_category_def constraint_of_def constraint_holds_def)
next
  case False
  with assms obtain col where col: "getitem df c = Some col"
    and f: "f = bool_index df (eq_cell col x)"
    by (auto simp: filter_category_def split: option.splits)
  have "eq_cell col x = map (\<lambda>r. constraint_holds (constraint_of x) (record_field (columns df) c r)) (rows df)"
    using getitem_Some[OF col] False
    by (simp add: eq_cell_def constraint_of_def constraint_holds_def)
  then show ?thesis using f by (simp add: bool_index_map)
qed

lemma filter_category_defined:
  "(filter_category c x df = None) = (x \<noteq> Str ''All'' \<and> getitem df c = None)"
  by (auto simp: filter_category_def split: option.splits)

lemma getitem_rows_update:
  "(getitem (df\<lparr>rows := rs\<rparr>) c = None) = (getitem df c = None)"
  by (auto simp: getitem_def split: list.splits)

lemma filtered_df_Some:
  assumes "filtered_df df sel = Some f"
  shows "f = filter_dataset df (spec_of sel) \<and> filterable df sel"
proof -
  from assms obtain col where col: "getitem df ''date'' = Some col" and dl: "list_all datetimelike col"
    by (auto simp: filtered_df_def dt_date_def split: option.splits if_splits Option.bind_splits)
  let ?ds = "map (\<lambda>c. case c of Ts t \<Rightarrow> Some (fst t) | _ \<Rightarrow> None) col"
  let ?f0 = "bool_index df (mask_and (ge_date ?ds (start_date sel)) (le_date ?ds (end_date sel)))"
  have f0: "?f0 = df\<lparr>rows := filter (\<lambda>r. in_range (start_date sel) (end_date sel) (record_field (columns df) ''date'' r)) (rows df)\<rparr>"
    unfolding getitem_Some[OF col] date_mask by (rule bool_index_map)
  from assms col dl obtain f1 f2 where
    f1: "filter_category ''platform'' (selected_platform sel) ?f0 = Some f1" and
    f2: "filter_category ''sentiment'' (selected_sentiment sel) f1 = Some f2" and
    f3: "filter_category ''media_type'' (selected_media_type sel) f2 = Some f"
    by (auto simp: filtered_df_def dt_date_def split: Option.bind_splits)
  note e1 = filter_category_Some[OF f1] and e2 = filter_category_Some[OF f2] and e3 = filter_category_Some[OF f3]
  have c1: "columns f1 = columns df" using e1 f0 by simp
  have c2: "columns f2 = columns df" using e2 c1 by simp
  have "f = filter_dataset df (spec_of sel)"
    unfolding e3 c2 unfolding e2 c1 unfolding e1 f0
    by (simp add: filter_dataset_def spec_of_def conj_commute conj_left_commute cong: conj_cong)
  moreover have "filterable df sel"
  proof -
    have "selected_platform sel = Str ''All'' \<or> getitem df ''platform'' \<noteq> None"
      using f1 filter_category_defined[of "''platform''" "selected_platform sel" ?f0]
      by (simp add: f0 getitem_rows_update)
    moreover have "selected_sentiment sel = Str ''All'' \<or> getitem df ''sentiment'' \<noteq> None"
      using f2 filter_category_defined[of "''sentiment''" "selected_sentiment sel" f1]
      by (simp add: e1 f0 getitem_rows_update)
    moreover have "selected_media_type sel = Str ''All'' \<or> getitem df ''media_type'' \<noteq> None"
      using f3 filter_category_defined[of "''media_type''" "selected_media_type sel" f2]
      by (simp add: e2 e1 f0 getitem_rows_update)
    ultimately show ?thesis using col dl by (simp add: filterable_def)
  qed
  ultimately show ?thesis by simp
qed


lemma getitem_rows:
  "getitem df c = Some col \<Longrightarrow>
     getitem (df\<lparr>rows := rs\<rparr>) c = Some (map (record_field (columns df) c) rs)"
  by (auto simp: getitem_def record_field_def split: list.splits)

lemma filterable_rows:
  assumes "filterable df sel" "set rs \<subseteq> set (rows df)"
  shows "filterable (df\<lparr>rows := rs\<rparr>) sel"
proof -
  from assms(1) obtain col where col: "getitem df ''date'' = Some col" and dl: "list_all datetimelike col"
    by (auto simp: filterable_def split: option.splits)
  have "list_all datetimelike (map (record_field (columns df) ''date'') rs)"
    using dl assms(2) unfolding getitem_Some[OF col] by (auto simp: list_all_iff)
  with getitem_rows[OF col, of rs] assms(1) show ?thesis
    by (simp add: filterable_def getitem_rows_update)
qed

lemma filterable_filtered_df:
  assumes "filterable df sel"
  shows "\<exists>f. filtered_df df sel = Some f"
proof -
  from assms obtain col where col: "getitem df ''date'' = Some col" and dl: "list_all datetimelike col"
    by (auto simp: filterable_def split: option.splits)
  let ?ds = "map (\<lambda>c. case c of Ts t \<Rightarrow> Some (fst t) | _ \<Rightarrow> None) col"
  let ?f0 = "bool_index df (mask_and (ge_date ?ds (start_date sel)) (le_date ?ds (end_date sel)))"
  have f0: "?f0 = df\<lparr>rows := map fst (filter snd (zip (rows df) (mask_and (ge_date ?ds (start_date sel)) (le_date ?ds (end_date sel)))))\<rparr>"
    by (simp add: bool_index_def)
  have "filter_category ''platform'' (selected_platform sel) ?f0 \<noteq> None"
    using assms unfolding filter_category_defined f0 getitem_rows_update
    by (auto simp: filterable_def)
  then obtain f1 where f1: "filter_category ''platform'' (selected_platform sel) ?f0 = Some f1" by blast
  have "filter_category ''sentiment'' (selected_sentiment sel) f1 \<noteq> None"
    using assms unfolding filter_category_defined filter_category_Some[OF f1] f0 getitem_rows_update
    by (auto simp: filterable_def)
  then obtain f2 where f2: "filter_category ''sentiment'' (selected_sentiment sel) f1 = Some f2" by blast
  have "filter_category ''media_type'' (selected_media_type sel) f2 \<noteq> None"
    using assms unfolding filter_category_defined filter_category_Some[OF f2] filter_category_Some[OF f1] f0 getitem_rows_update
    by (auto simp: filterable_def)
  then obtain f3 where f3: "filter_category ''media_type'' (selected_media_type sel) f2 = Some f3" by blast
  from col dl f1 f2 f3 show ?thesis by (simp add: filtered_df_def dt_date_def)
qed

lemma filter_dataset_idem: "filter_dataset (filter_dataset ds fs) fs = filter_dataset ds fs"
  by (simp add: filter_dataset_def cong: conj_cong)

lemma filtered_df_eq:
  "filtered_df df sel = (if filterable df sel then Some (filter_dataset df (spec_of sel)) else None)"
proof (cases "filterable df sel")
  case True
  from filterable_filtered_df[OF True] obtain f where f: "filtered_df df sel = Some f" by blast
  from filtered_df_Some[OF f] f True show ?thesis by simp
next
  case False
  then have "filtered_df df sel = None" using filtered_df_Some[of df sel] by (cases "filtered_df df sel") auto
  with False show ?thesis by simp
qed


text \<open>
  C2, as the code has it. The filter reads the selection text \<open>All\<close> as no constraint
  and every other selection as an equality constraint: whenever the filtering statements
  raise nothing, the result is the specification's \<open>filter_dataset\<close> for the FilterSpec
  that \<open>spec_of\<close> reads off the selection, so selecting a value other than \<open>All\<close>
  keeps exactly the records in the date range that bear it.
\<close>

theorem filtered_df_refines_filter_dataset:
  "filtered_df df sel = (if filterable df sel then Some (filter_dataset df (spec_of sel)) else None)"
  by (rule filtered_df_eq)

theorem filtered_df_refines_filter_dataset_witness:
  "filterable platform_named_all (select_platform (Str ''X''))
   \<and> filtered_df platform_named_all (select_platform (Str ''X''))
       = Some (filter_dataset platform_named_all (spec_of (select_platform (Str ''X''))))
   \<and> Option.bind (filtered_df platform_named_all (select_platform (Str ''X'')))
        (\<lambda>df. getitem df ''platform'') = Some [Str ''X'']"
proof -
  have h: "filterable platform_named_all (select_platform (Str ''X''))" by code_simp
  have v: "Option.bind (filtered_df platform_named_all (select_platform (Str ''X'')))
             (\<lambda>df. getitem df ''platform'') = Some [Str ''X'']" by code_simp
  from filtered_df_refines_filter_dataset[of platform_named_all "select_platform (Str ''X'')"] h v
  show ?thesis by simp
qed

text \<open>
  C2 as stated fails: with a platform literally named All, selecting it is read as no
  constraint, and the record of platform X stays in the result.
\<close>

theorem sentinel_collision_counterexample:
  "getitem platform_named_all ''platform'' = Some [Str ''All'', Str ''X'']
   \<and> Option.bind (filtered_df platform_named_all (select_platform (Str ''All'')))
        (\<lambda>df. getitem df ''platform'') = Some [Str ''All'', Str ''X'']
   \<and> getitem (filter_dataset platform_named_all
         ((spec_of select_all)\<lparr>platform_is := Some (Str ''All'')\<rparr>)) ''platform''
       = Some [Str ''All'']"
  by code_simp

text \<open>
  C8. Filtering is idempotent: when the filter returns a frame, filtering that frame
  again with the same selection returns the same frame.
\<close>

theorem filtered_df_idempotent:
  assumes "filtered_df df sel = Some f"
  shows "filtered_df f sel = Some f"
proof -
  from filtered_df_Some[OF assms] have f: "f = filter_dataset df (spec_of sel)" and fl: "filterable df sel"
    by simp_all
  have "filterable f sel" unfolding f filter_dataset_def by (rule filterable_rows[OF fl]) auto
  then have "filtered_df f sel = Some (filter_dataset f (spec_of sel))"
    by (simp add: filtered_df_eq)
  then show ?thesis by (simp add: f filter_dataset_idem)
qed

theorem filtered_df_idempotent_witness:
  "filtered_df two_posts_clean (select_platform (Str ''X''))
     = Some (two_posts_clean\<lparr>rows := [hd (rows two_posts_clean)]\<rparr>)
   \<and> filtered_df (two_posts_clean\<lparr>rows := [hd (rows two_posts_clean)]\<rparr>) (select_platform (Str ''X''))
     = Some (two_posts_clean\<lparr>rows := [hd (rows two_posts_clean)]\<rparr>)"
proof -
  have h: "filtered_df two_posts_clean (select_platform (Str ''X''))
             = Some (two_posts_clean\<lparr>rows := [hd (rows two_posts_clean)]\<rparr>)" by code_simp
  from h filtered_df_idempotent[OF h] show ?thesis by simp
qed

section \<open>Series: basic facts\<close>

lemma mset_sort_values_desc: "mset (sort_values_desc s) = mset s"
  by (simp add: sort_values_desc_def)

lemma set_sort_values_desc: "set (sort_values_desc s) = set s"
  by (simp add: sort_values_desc_def)

lemma length_sort_values_desc: "length (sort_values_desc s) = length s"
  by (simp add: sort_values_desc_def)

lemma sort_values_desc_empty: "sort_values_desc s = [] \<longleftrightarrow> s = []"
  using length_sort_values_desc[of s] by (metis length_0_conv)

lemma sorted_sort_values_desc: "sorted_wrt (\<ge>) (map snd (sort_values_desc s))"
proof -
  have "sorted (map snd (sort_key snd (rev s)))" by (rule sorted_sort_key)
  then show ?thesis by (simp add: sort_values_desc_def rev_map[symmetric] sorted_wrt_rev)
qed


lemma distinct_fst_sort_values_desc:
  "distinct (map fst (sort_values_desc s)) = distinct (map fst s)"
proof -
  have "mset (map fst (sort_values_desc s)) = mset (map fst s)"
    by (simp add: mset_sort_values_desc)
  then show ?thesis by (rule mset_eq_imp_distinct_iff)
qed

lemma hd_sort_values_desc_max:
  assumes "s \<noteq> []" "kv \<in> set s"
  shows "snd kv \<le> snd (hd (sort_values_desc s))" "hd (sort_values_desc s) \<in> set s"
proof -
  let ?t = "sort_values_desc s"
  have ne: "?t \<noteq> []" using assms(1) by (simp add: sort_values_desc_empty)
  then obtain x xs where t: "?t = x # xs" by (cases ?t) auto
  have "kv \<in> set ?t" using assms(2) by (simp add: set_sort_values_desc)
  moreover have "sorted_wrt (\<ge>) (map snd (x # xs))" using sorted_sort_values_desc[of s] t by simp
  ultimately show "snd kv \<le> snd (hd ?t)" using t by auto
  show "hd ?t \<in> set s" using ne set_sort_values_desc[of s] by (metis hd_in_set)
qed

lemma last_sort_values_desc_min:
  assumes "s \<noteq> []" "kv \<in> set s"
  shows "snd (last (sort_values_desc s)) \<le> snd kv" "last (sort_values_desc s) \<in> set s"
proof -
  let ?t = "sort_values_desc s"
  have ne: "?t \<noteq> []" using assms(1) by (simp add: sort_values_desc_empty)
  then obtain xs x where t: "?t = xs @ [x]" by (metis rev_exhaust)
  have "kv \<in> set ?t" using assms(2) by (simp add: set_sort_values_desc)
  moreover have "sorted_wrt (\<ge>) (map snd (xs @ [x]))" using sorted_sort_values_desc[of s] t by simp
  ultimately show "snd (last ?t) \<le> snd kv" using t by (auto simp: sorted_wrt_append)
  show "last ?t \<in> set s" using ne set_sort_values_desc[of s] by (metis last_in_set)
qed

lemma set_group_keys: "set (group_keys ks) = set ks - {NaN}"
  by (auto simp: group_keys_def)

lemma distinct_group_keys: "distinct (group_keys ks)"
  by (simp add: group_keys_def)

lemma map_fst_groupby_sum: "map fst (groupby_sum P ks vs) = group_keys ks"
  by (simp add: groupby_sum_def comp_def)

lemma groupby_sum_empty: "groupby_sum P ks vs = [] \<longleftrightarrow> (\<forall>k \<in> set ks. k = NaN)"
proof -
  have "groupby_sum P ks vs = [] \<longleftrightarrow> set (group_keys ks) = {}"
    by (simp add: groupby_sum_def)
  then show ?thesis by (auto simp: set_group_keys)
qed

lemma cell_key_inj: "cell_key a = cell_key b \<Longrightarrow> a = b"
  by (cases a; cases b) (auto simp: cell_key_def)

lemma sorted_group_keys: "sorted_wrt (\<lambda>a b. cell_key a < cell_key b) (group_keys ks)"
proof -
  have s: "sorted (map cell_key (group_keys ks))" by (simp add: group_keys_def sorted_sort_key)
  have d: "distinct (map cell_key (group_keys ks))"
    using distinct_group_keys[of ks] by (simp add: distinct_map inj_on_def cell_key_inj)
  from s d have "sorted_wrt (<) (map cell_key (group_keys ks))"
    by (simp add: strict_sorted_iff)
  then show ?thesis by (simp add: sorted_wrt_map)
qed





section \<open>Aggregates\<close>



text \<open>
  C7 as stated fails on fractional engagements. With the engagements 0.1, 0.2 and 0.4 (as
  doubles) on the platforms X, Y and X, the per-platform sums 0.5 and 0.2 add up to the
  double 0.7, whereas the engagements of the frame add up to the double that follows
  it, and their exact sum is different again.
\<close>

theorem float_total_counterexample:
  "round64 (1 / 10) = double_0_1 \<and> round64 (2 / 10) = double_0_2 \<and> round64 (4 / 10) = double_0_4
   \<and> getitem fractional_posts ''platform'' = Some [Str ''X'', Str ''Y'', Str ''X'']
   \<and> getitem fractional_posts ''engagements'' = Some [Num double_0_1, Num double_0_2, Num double_0_4]
   \<and> sort_values_desc (groupby_sum float64_pandas [Str ''X'', Str ''Y'', Str ''X'']
         [Num double_0_1, Num double_0_2, Num double_0_4])
       = [(Str ''X'', 1 / 2), (Str ''Y'', double_0_2)]
   \<and> series_sum float64_pandas [1 / 2, double_0_2] = double_0_7
   \<and> series_sum float64_pandas [double_0_1, double_0_2, double_0_4] = double_after_0_7
   \<and> sum_list [double_0_1, double_0_2, double_0_4] \<noteq> double_0_7
   \<and> double_after_0_7 \<noteq> double_0_7"
  by code_simp

text \<open>
  C6. The location aggregate of the fifth chart, which is also the one the location
  insights are computed from, has at most 5 entries and is sorted descending by summed
  engagement. When every location is null the aggregate is empty and the location
  insight generator returns no insight (it does not raise); it also returns none when the
  frame has no location column.
\<close>

theorem location_engagements_top5:
  "(''location'' \<notin> set (columns df) \<longrightarrow> get_location_insights P df = Some [])
   \<and> (\<forall>ls es. getitem df ''location'' = Some ls \<and> getitem df ''engagements'' = Some es \<longrightarrow>
         (\<exists>agg insights.
            location_engagements P df = Some agg
            \<and> agg = head 5 (sort_values_desc (groupby_sum P ls es))
            \<and> length agg \<le> 5
            \<and> sorted_wrt (\<ge>) (map snd agg)
            \<and> get_location_insights P df = Some insights
            \<and> (list_all (\<lambda>c. c = NaN) ls \<longrightarrow> agg = [] \<and> insights = [])))"
proof -
  have a: "get_location_insights P df = Some []" if "''location'' \<notin> set (columns df)"
    using that by (simp add: get_location_insights_def)
  have b: "\<exists>agg insights.
            location_engagements P df = Some agg
            \<and> agg = head 5 (sort_values_desc (groupby_sum P ls es))
            \<and> length agg \<le> 5
            \<and> sorted_wrt (\<ge>) (map snd agg)
            \<and> get_location_insights P df = Some insights
            \<and> (list_all (\<lambda>c. c = NaN) ls \<longrightarrow> agg = [] \<and> insights = [])"
    if ls: "getitem df ''location'' = Some ls" and es: "getitem df ''engagements'' = Some es" for ls es
  proof -
    let ?agg = "head 5 (sort_values_desc (groupby_sum P ls es))"
    have 1: "location_engagements P df = Some ?agg"
      using ls es by (simp add: location_engagements_def nlargest_def head_def)
    have 2: "length ?agg \<le> 5" by (simp add: head_def)
    have 3: "sorted_wrt (\<ge>) (map snd ?agg)"
      unfolding head_def take_map[symmetric] by (rule sorted_wrt_take[OF sorted_sort_values_desc])
    have 4: "\<exists>insights. get_location_insights P df = Some insights
                \<and> (list_all (\<lambda>c. c = NaN) ls \<longrightarrow> insights = [])"
      using ls es by (simp add: get_location_insights_def Let_def)
    have 5: "?agg = []" if "list_all (\<lambda>c. c = NaN) ls"
    proof -
      from that have "groupby_sum P ls es = []" by (simp add: groupby_sum_empty list_all_iff)
      then show ?thesis by (simp add: head_def sort_values_desc_def)
    qed
    from 1 2 3 4 5 show ?thesis by blast
  qed
  from a b show ?thesis by blast
qed

theorem location_engagements_top5_witness:
  "location_engagements example_pandas null_locations = Some []
   \<and> get_location_insights example_pandas null_locations = Some []
   \<and> location_engagements example_pandas six_locations
       = Some [(Str ''B'', 11), (Str ''F'', 8), (Str ''D'', 7), (Str ''E'', 5), (Str ''A'', 3)]"
proof -
  have l: "getitem null_locations ''location'' = Some [NaN, NaN]" by code_simp
  have e: "getitem null_locations ''engagements'' = Some [Num 10, Num 5]" by code_simp
  have n: "list_all (\<lambda>c. c = NaN) [NaN, NaN]" by simp
  have s: "location_engagements example_pandas six_locations
       = Some [(Str ''B'', 11), (Str ''F'', 8), (Str ''D'', 7), (Str ''E'', 5), (Str ''A'', 3)]"
    by code_simp
  from location_engagements_top5[of null_locations example_pandas] l e n
  have "location_engagements example_pandas null_locations = Some []
        \<and> get_location_insights example_pandas null_locations = Some []"
    by fastforce
  with s show ?thesis by simp
qed

section \<open>Insights\<close>

lemma round_half_even_nearest:
  assumes "0 < d"
  shows "2 * \<bar>int n - int (round_half_even n d) * int d\<bar> \<le> int d"
proof -
  define q r where "q = n div d" and "r = n mod d"
  have n: "int n = int q * int d + int r"
    unfolding q_def r_def by (metis div_mult_mod_eq of_nat_add of_nat_mult)
  have r: "r < d" unfolding r_def using assms by simp
  have t: "round_half_even n d = (if 2 * r < d then q else if d < 2 * r then Suc q else if even q then q else Suc q)"
    by (simp add: round_half_even_def q_def r_def Let_def)
  show ?thesis
  proof (cases "round_half_even n d = q")
    case True
    then have "2 * r \<le> d" using t by (auto split: if_splits)
    with True n show ?thesis by simp
  next
    case False
    then have s: "round_half_even n d = Suc q" and "d \<le> 2 * r" using t by (auto split: if_splits)
    have "int n - int (Suc q) * int d = int r - int d" using n by (simp add: algebra_simps)
    with s r \<open>d \<le> 2 * r\<close> show ?thesis by simp
  qed
qed

lemma set_unique: "set (unique cs) = set cs" by (simp add: unique_def)
lemma distinct_unique: "distinct (unique cs)" by (simp add: unique_def)
lemma length_unique: "length (unique cs) = card (set cs)"
  using distinct_card[OF distinct_unique[of cs]] by (simp add: set_unique)

lemma set_value_counts:
  "set (value_counts cs) = (\<lambda>k. (k, int (count_list cs k))) ` (set cs - {NaN})"
  by (auto simp: value_counts_def set_sort_values_desc set_unique)

lemma length_value_counts: "length (value_counts cs) = card (set cs - {NaN})"
proof -
  have "set [c \<leftarrow> cs. c \<noteq> NaN] = set cs - {NaN}" by auto
  then show ?thesis by (simp add: value_counts_def length_sort_values_desc length_unique)
qed

lemma value_counts_empty: "value_counts cs = [] \<longleftrightarrow> (\<forall>c \<in> set cs. c = NaN)"
proof -
  have "value_counts cs = [] \<longleftrightarrow> set (value_counts cs) = {}" by simp
  then show ?thesis unfolding set_value_counts by auto
qed

text \<open>
  C9. On a non-empty frame with at least one sentiment value, the sentiment insight
  names a category of greatest count together with its share of the row count of that
  frame as a percentage with one decimal: \<open>tenths\<close> is a nearest integer to a thousand
  times the count divided by the row count. With three or more distinct categories it
  then names a category of least count. The fixed strategic sentence always comes last.
\<close>

theorem sentiment_insights:
  assumes "\<not> empty_df df" and "getitem df ''sentiment'' = Some col" and "\<exists>c \<in> set col. c \<noteq> NaN"
  shows "\<exists>top least tenths.
           top \<in> set col - {NaN}
         \<and> (\<forall>c \<in> set col - {NaN}. count_list col c \<le> count_list col top)
         \<and> least \<in> set col - {NaN}
         \<and> (\<forall>c \<in> set col - {NaN}. count_list col least \<le> count_list col c)
         \<and> 2 * \<bar>1000 * int (count_list col top) - int tenths * int (length (rows df))\<bar>
               \<le> int (length (rows df))
         \<and> get_sentiment_insights df =
             Some ([''**Dominant Sentiment:** The audience reception is largely **''
                    @ cell_text top @ ''**, accounting for ''
                    @ show_nat (tenths div 10) @ ''.'' @ show_nat (tenths mod 10)
                    @ ''% of all posts.'']
                   @ (if 3 \<le> card (set col - {NaN}) then
                        [''**Data Anomaly:** The **'' @ cell_text least
                         @ ''** sentiment is a significant minority, suggesting a need to investigate specific posts driving this feeling.'']
                      else [])
                   @ [''**Strategic Trend:** The current sentiment mix indicates the overall tone of the content. Efforts should focus on increasing positive interactions.''])"
proof -
  let ?vc = "value_counts col"
  let ?S = "sort_values_desc ?vc"
  let ?total = "length (rows df)"
  have vc: "?vc \<noteq> []" using assms(3) by (simp add: value_counts_empty)
  then have S: "?S \<noteq> []" by (simp add: sort_values_desc_empty)
  have hdS: "hd ?S \<in> set ?vc" and lastS: "last ?S \<in> set ?vc"
    using S set_sort_values_desc[of ?vc] by (metis hd_in_set, metis last_in_set)
  from hdS obtain top where top: "top \<in> set col - {NaN}" "hd ?S = (top, int (count_list col top))"
    unfolding set_value_counts by auto
  from lastS obtain least where least: "least \<in> set col - {NaN}" "last ?S = (least, int (count_list col least))"
    unfolding set_value_counts by auto
  have mx: "count_list col c \<le> count_list col top" if "c \<in> set col - {NaN}" for c
  proof -
    from that have "(c, int (count_list col c)) \<in> set ?vc" unfolding set_value_counts by blast
    from hd_sort_values_desc_max(1)[OF vc this] top(2) show ?thesis by simp
  qed
  have mn: "count_list col least \<le> count_list col c" if "c \<in> set col - {NaN}" for c
  proof -
    from that have "(c, int (count_list col c)) \<in> set ?vc" unfolding set_value_counts by blast
    from last_sort_values_desc_min(1)[OF vc this] least(2) show ?thesis by simp
  qed
  have pos: "0 < ?total" using assms(1) by (simp add: empty_df_def)
  define tenths where "tenths = round_half_even (10 * (count_list col top * 100)) ?total"
  have near: "2 * \<bar>1000 * int (count_list col top) - int tenths * int ?total\<bar> \<le> int ?total"
    using round_half_even_nearest[OF pos, of "10 * (count_list col top * 100)"]
    by (simp add: tenths_def)
  have fmt: "fmt_1f (int (count_list col top) * 100) (int ?total)
               = show_nat (tenths div 10) @ ''.'' @ show_nat (tenths mod 10)"
  proof -
    have "nat \<bar>int (count_list col top) * 100\<bar> = count_list col top * 100"
      by (simp add: nat_mult_distrib abs_mult)
    then show ?thesis using pos
      by (simp add: fmt_1f_def sign_text_def tenths_def Let_def)
  qed
  have len: "length ?S = card (set col - {NaN})"
    by (simp add: length_sort_values_desc length_value_counts)
  have "get_sentiment_insights df =
             Some ([''**Dominant Sentiment:** The audience reception is largely **''
                    @ cell_text top @ ''**, accounting for ''
                    @ show_nat (tenths div 10) @ ''.'' @ show_nat (tenths mod 10)
                    @ ''% of all posts.'']
                   @ (if 3 \<le> card (set col - {NaN}) then
                        [''**Data Anomaly:** The **'' @ cell_text least
                         @ ''** sentiment is a significant minority, suggesting a need to investigate specific posts driving this feeling.'']
                      else [])
                   @ [''**Strategic Trend:** The current sentiment mix indicates the overall tone of the content. Efforts should focus on increasing positive interactions.''])"
  proof -
    have c: "(2 < length ?S) = (3 \<le> card (set col - {NaN}))" unfolding len by auto
    show ?thesis
      unfolding get_sentiment_insights_def Let_def
      using assms(1,2) S by (simp only: if_False option.case c top(2) least(2) fst_conv snd_conv fmt if_True simp_thms append_assoc)
  qed
  with top(1) least(1) mx mn near show ?thesis by blast
qed

theorem sentiment_insights_witness:
  "get_sentiment_insights two_posts_clean =
     Some [''**Dominant Sentiment:** The audience reception is largely **Positive**, accounting for 50.0% of all posts.'',
           ''**Strategic Trend:** The current sentiment mix indicates the overall tone of the content. Efforts should focus on increasing positive interactions.'']
   \<and> (\<exists>top \<in> set [Str ''Positive'', Str ''Negative''] - {NaN}.
         \<forall>c \<in> set [Str ''Positive'', Str ''Negative''] - {NaN}.
           count_list [Str ''Positive'', Str ''Negative''] c
             \<le> count_list [Str ''Positive'', Str ''Negative''] top)"
proof -
  have 1: "\<not> empty_df two_posts_clean" by code_simp
  have 2: "getitem two_posts_clean ''sentiment'' = Some [Str ''Positive'', Str ''Negative'']"
    by code_simp
  have 3: "\<exists>c \<in> set [Str ''Positive'', Str ''Negative'']. c \<noteq> NaN" by simp
  have v: "get_sentiment_insights two_posts_clean =
     Some [''**Dominant Sentiment:** The audience reception is largely **Positive**, accounting for 50.0% of all posts.'',
           ''**Strategic Trend:** The current sentiment mix indicates the overall tone of the content. Efforts should focus on increasing positive interactions.'']"
    by code_simp
  from sentiment_insights[OF 1 2 3]
  have "\<exists>top \<in> set [Str ''Positive'', Str ''Negative''] - {NaN}.
         \<forall>c \<in> set [Str ''Positive'', Str ''Negative''] - {NaN}.
           count_list [Str ''Positive'', Str ''Negative''] c
             \<le> count_list [Str ''Positive'', Str ''Negative''] top"
    by blast
  with v show ?thesis by blast
qed

end
